theory Spec2Isabelle
  imports Complex_Main "HOL-Library.Sublist"
begin

section \<open>Python string primitives used by the webhook handler\<close>

text \<open>
  A Python \<open>str\<close> is a sequence of code points. The model keeps the code points below 256
  (one \<open>char\<close> each), on which \<open>str.strip\<close>, \<open>str.lower\<close>, \<open>str.split\<close>,
  \<open>str.isdigit\<close> and \<open>int\<close> behave as written below. The interpreter's limit on the
  number of digits \<open>int\<close> converts is left out.
\<close>

definition code_point :: "char \<Rightarrow> nat" where
  "code_point c = of_char c"

definition isspace :: "char \<Rightarrow> bool" where
  "isspace c = (let n = code_point c in
     (9 \<le> n \<and> n \<le> 13) \<or> (28 \<le> n \<and> n \<le> 32) \<or> n = 133 \<or> n = 160)"

definition upper_chars :: "string" where
  "upper_chars = ''ABCDEFGHIJKLMNOPQRSTUVWXYZ'' @
     [CHR 0xC0, CHR 0xC1, CHR 0xC2, CHR 0xC3, CHR 0xC4, CHR 0xC5, CHR 0xC6, CHR 0xC7,
      CHR 0xC8, CHR 0xC9, CHR 0xCA, CHR 0xCB, CHR 0xCC, CHR 0xCD, CHR 0xCE, CHR 0xCF,
      CHR 0xD0, CHR 0xD1, CHR 0xD2, CHR 0xD3, CHR 0xD4, CHR 0xD5, CHR 0xD6,
      CHR 0xD8, CHR 0xD9, CHR 0xDA, CHR 0xDB, CHR 0xDC, CHR 0xDD, CHR 0xDE]"

definition lower_chars :: "string" where
  "lower_chars = ''abcdefghijklmnopqrstuvwxyz'' @
     [CHR 0xE0, CHR 0xE1, CHR 0xE2, CHR 0xE3, CHR 0xE4, CHR 0xE5, CHR 0xE6, CHR 0xE7,
      CHR 0xE8, CHR 0xE9, CHR 0xEA, CHR 0xEB, CHR 0xEC, CHR 0xED, CHR 0xEE, CHR 0xEF,
      CHR 0xF0, CHR 0xF1, CHR 0xF2, CHR 0xF3, CHR 0xF4, CHR 0xF5, CHR 0xF6,
      CHR 0xF8, CHR 0xF9, CHR 0xFA, CHR 0xFB, CHR 0xFC, CHR 0xFD, CHR 0xFE]"

definition lower_char :: "char \<Rightarrow> char" where
  "lower_char c = (case map_of (zip upper_chars lower_chars) c of Some l \<Rightarrow> l | None \<Rightarrow> c)"

definition lower :: "string \<Rightarrow> string" where
  "lower s = map lower_char s"

definition strip :: "string \<Rightarrow> string" where
  "strip s = rev (dropWhile isspace (rev (dropWhile isspace s)))"

text \<open>\<open>str.split()\<close> with no argument: the maximal runs of non-whitespace.\<close>

fun split_from :: "string \<Rightarrow> string \<Rightarrow> string list" where
  "split_from cur [] = (if cur = [] then [] else [rev cur])"
| "split_from cur (c # cs) =
     (if isspace c then (if cur = [] then split_from [] cs else rev cur # split_from [] cs)
      else split_from (c # cur) cs)"

definition split :: "string \<Rightarrow> string list" where
  "split s = split_from [] s"

definition startswith :: "string \<Rightarrow> string \<Rightarrow> bool" where
  "startswith s p = prefix p s"

definition replace_char :: "char \<Rightarrow> char \<Rightarrow> string \<Rightarrow> string" where
  "replace_char a b s = map (\<lambda>c. if c = a then b else c) s"

definition is_decimal :: "char \<Rightarrow> bool" where
  "is_decimal c = (let n = code_point c in 48 \<le> n \<and> n \<le> 57)"

text \<open>\<open>str.isdigit\<close> also accepts the superscript digits, which \<open>int\<close> rejects.\<close>

definition isdigit_char :: "char \<Rightarrow> bool" where
  "isdigit_char c = (let n = code_point c in (48 \<le> n \<and> n \<le> 57) \<or> n = 178 \<or> n = 179 \<or> n = 185)"

definition isdigit :: "string \<Rightarrow> bool" where
  "isdigit s = (s \<noteq> [] \<and> list_all isdigit_char s)"

definition digit_val :: "char \<Rightarrow> nat" where
  "digit_val c = code_point c - 48"

definition digits_val :: "string \<Rightarrow> nat" where
  "digits_val s = foldl (\<lambda>acc c. 10 * acc + digit_val c) 0 s"

text \<open>The digit part of an integer literal: decimal digits, single underscores between them.\<close>

fun int_body :: "string \<Rightarrow> bool" where
  "int_body [] = False"
| "int_body [c] = is_decimal c"
| "int_body (c # d # cs) =
     (is_decimal c \<and> (if d = CHR ''_'' then int_body cs else int_body (d # cs)))"

text \<open>\<open>int(s)\<close>: \<open>None\<close> stands for the \<open>ValueError\<close>.\<close>

definition py_int :: "string \<Rightarrow> int option" where
  "py_int s =
     (let t = strip s;
          (neg, body) = (case t of
              [] \<Rightarrow> (False, [])
            | c # cs \<Rightarrow> if c = CHR ''-'' then (True, cs)
                       else if c = CHR ''+'' then (False, cs) else (False, t))
      in if int_body body
         then (let v = int (digits_val (filter (\<lambda>c. c \<noteq> CHR ''_'') body))
               in Some (if neg then - v else v))
         else None)"

text \<open>\<open>str(n)\<close> for a non-negative integer.\<close>

definition digit_char :: "nat \<Rightarrow> char" where
  "digit_char n = ''0123456789'' ! (n mod 10)"

fun str_nat :: "nat \<Rightarrow> string" where
  "str_nat n = (if n < 10 then [digit_char n]
                else str_nat (n div 10) @ [digit_char (n mod 10)])"

declare str_nat.simps [simp del]

section \<open>Kick-off time formatting\<close>

datatype exn = HTTPException nat | ValueError | TypeError | KeyError | AttributeError
  | IntegrityError

text \<open>
  \<open>datetime.strptime(s, "%Y-%m-%dT%H:%M:%SZ")\<close> compiles the format to the regular expression
  \<open>(\d\d\d\d)-(1[0-2]|0[1-9]|[1-9])-(3[0-1]|[1-2]\d|0[1-9]|[1-9]| [1-9])T(2[0-3]|[0-1]\d|\d):([0-5]\d|\d):(6[0-1]|[0-5]\d|\d)Z\<close>,
  matched ignoring case at the start of the string. A field parser returns every way the
  field's alternatives match, in the order the regular expression tries them, each with the
  field's value and the rest of the input.
\<close>

type_synonym 'a parser = "string \<Rightarrow> ('a \<times> string) list"

definition in_range :: "char \<Rightarrow> char \<Rightarrow> char \<Rightarrow> bool" where
  "in_range lo hi c = (code_point lo \<le> code_point c \<and> code_point c \<le> code_point hi)"

definition two :: "(char \<Rightarrow> bool) \<Rightarrow> (char \<Rightarrow> bool) \<Rightarrow> nat parser" where
  "two p q s = (case s of
      a # b # rest \<Rightarrow> if p a \<and> q b then [(digits_val [a, b], rest)] else []
    | _ \<Rightarrow> [])"

definition one :: "(char \<Rightarrow> bool) \<Rightarrow> nat parser" where
  "one p s = (case s of a # rest \<Rightarrow> if p a then [(digit_val a, rest)] else [] | _ \<Rightarrow> [])"

definition space_digit :: "nat parser" where
  "space_digit s = (case s of
      a # b # rest \<Rightarrow> if a = CHR '' '' \<and> in_range CHR ''1'' CHR ''9'' b
                      then [(digit_val b, rest)] else []
    | _ \<Rightarrow> [])"

definition re_Y :: "nat parser" where
  "re_Y s = (case s of
      a # b # c # d # rest \<Rightarrow>
        if is_decimal a \<and> is_decimal b \<and> is_decimal c \<and> is_decimal d
        then [(digits_val [a, b, c, d], rest)] else []
    | _ \<Rightarrow> [])"

definition re_m :: "nat parser" where
  "re_m s = two (\<lambda>c. c = CHR ''1'') (in_range CHR ''0'' CHR ''2'') s
          @ two (\<lambda>c. c = CHR ''0'') (in_range CHR ''1'' CHR ''9'') s
          @ one (in_range CHR ''1'' CHR ''9'') s"

definition re_d :: "nat parser" where
  "re_d s = two (\<lambda>c. c = CHR ''3'') (in_range CHR ''0'' CHR ''1'') s
          @ two (in_range CHR ''1'' CHR ''2'') is_decimal s
          @ two (\<lambda>c. c = CHR ''0'') (in_range CHR ''1'' CHR ''9'') s
          @ one (in_range CHR ''1'' CHR ''9'') s
          @ space_digit s"

definition re_H :: "nat parser" where
  "re_H s = two (\<lambda>c. c = CHR ''2'') (in_range CHR ''0'' CHR ''3'') s
          @ two (in_range CHR ''0'' CHR ''1'') is_decimal s
          @ one is_decimal s"

definition re_M :: "nat parser" where
  "re_M s = two (in_range CHR ''0'' CHR ''5'') is_decimal s @ one is_decimal s"

definition re_S :: "nat parser" where
  "re_S s = two (\<lambda>c. c = CHR ''6'') (in_range CHR ''0'' CHR ''1'') s
          @ two (in_range CHR ''0'' CHR ''5'') is_decimal s
          @ one is_decimal s"

definition lit :: "char \<Rightarrow> string \<Rightarrow> string list" where
  "lit c s = (case s of a # rest \<Rightarrow> if lower_char a = lower_char c then [rest] else [] | _ \<Rightarrow> [])"

record datetime =
  year :: nat
  month :: nat
  day :: nat
  hour :: nat
  minute :: nat
  second :: nat

definition re_match :: "string \<Rightarrow> (datetime \<times> string) list" where
  "re_match s = concat (map (\<lambda>(y, s1). concat (map (\<lambda>s2.
     concat (map (\<lambda>(mo, s3). concat (map (\<lambda>s4.
     concat (map (\<lambda>(d, s5). concat (map (\<lambda>s6.
     concat (map (\<lambda>(h, s7). concat (map (\<lambda>s8.
     concat (map (\<lambda>(mi, s9). concat (map (\<lambda>s10.
     concat (map (\<lambda>(se, s11). map (\<lambda>s12.
       (\<lparr>year = y, month = mo, day = d, hour = h, minute = mi, second = se\<rparr>, s12))
     (lit CHR ''Z'' s11)) (re_S s10)))
     (lit CHR '':'' s9))) (re_M s8)))
     (lit CHR '':'' s7))) (re_H s6)))
     (lit CHR ''T'' s5))) (re_d s4)))
     (lit CHR ''-'' s3))) (re_m s2)))
     (lit CHR ''-'' s1))) (re_Y s))"

definition is_leap :: "nat \<Rightarrow> bool" where
  "is_leap y = (y mod 4 = 0 \<and> (y mod 100 \<noteq> 0 \<or> y mod 400 = 0))"

definition days_in_month :: "nat \<Rightarrow> nat \<Rightarrow> nat" where
  "days_in_month y m =
     (if m = 2 then (if is_leap y then 29 else 28)
      else if m = 4 \<or> m = 6 \<or> m = 9 \<or> m = 11 then 30 else 31)"

text \<open>
  The first match has to use the whole string, and the fields have to make a date and time
  that \<open>datetime\<close> accepts; a string fails with \<open>ValueError\<close> otherwise. An argument that is
  not a string fails with \<open>TypeError\<close>. The argument is \<open>match.get("commence_time")\<close>, which
  is \<open>None\<close> when the key is absent.
\<close>

definition strptime :: "string option \<Rightarrow> exn + datetime" where
  "strptime arg = (case arg of
      None \<Rightarrow> Inl TypeError
    | Some s \<Rightarrow> (case re_match s of
        [] \<Rightarrow> Inl ValueError
      | (dt, rest) # _ \<Rightarrow>
          if rest \<noteq> [] then Inl ValueError
          else if year dt < 1 \<or> day dt > days_in_month (year dt) (month dt) \<or> second dt > 59
          then Inl ValueError
          else Inr dt))"

definition month_name :: "nat \<Rightarrow> string" where
  "month_name m =
     (if m = 1 then ''January'' else if m = 2 then ''February'' else if m = 3 then ''March''
      else if m = 4 then ''April'' else if m = 5 then ''May'' else if m = 6 then ''June''
      else if m = 7 then ''July'' else if m = 8 then ''August''
      else if m = 9 then ''September'' else if m = 10 then ''October''
      else if m = 11 then ''November'' else ''December'')"

definition pad2 :: "nat \<Rightarrow> string" where
  "pad2 n = [digit_char (n div 10), digit_char n]"

text \<open>
  \<open>dt.strftime("%B %d, %Y at %H:%M UTC")\<close> with the C library of Linux, where \<open>%Y\<close> is the
  year in decimal without padding (a year below 1000 has fewer than four digits).
\<close>

definition strftime :: "datetime \<Rightarrow> string" where
  "strftime dt = month_name (month dt) @ '' '' @ pad2 (day dt) @ '', '' @ str_nat (year dt)
     @ '' at '' @ pad2 (hour dt) @ '':'' @ pad2 (minute dt) @ '' UTC''"

text \<open>
  The formatting step of both match listings:
  \<^verbatim>\<open>
  try:
      dt = datetime.strptime(commence_time, "%Y-%m-%dT%H:%M:%SZ")
      formatted_time = dt.strftime("%B %d, %Y at %H:%M UTC")
  except ValueError:
      formatted_time = commence_time
  \<close>
  Only \<open>ValueError\<close> is caught.
\<close>

definition format_commence_time :: "string option \<Rightarrow> exn + string option" where
  "format_commence_time commence_time = (case strptime commence_time of
      Inr dt \<Rightarrow> Inr (Some (strftime dt))
    | Inl ValueError \<Rightarrow> Inr commence_time
    | Inl e \<Rightarrow> Inl e)"

section \<open>Data model\<close>

text \<open>
  The external data gateway returns JSON objects which the handler reads with \<open>dict.get\<close>:
  a field is \<open>None\<close> when its key is absent. \<open>sports_list\<close> is the catalog fetched at
  start-up, a dict from sport to tournaments, kept as the list of its items in key order
  (the keys of a dict are distinct).
\<close>

record tournament_dict =
  title :: "string option"
  key :: "string option"
  active :: bool

type_synonym catalog = "(string \<times> tournament_dict list) list"

record outcome_dict =
  name :: "string option"
  price :: "rat option"

record odds_dict =
  outcomes :: "outcome_dict list option"

record match_dict =
  m_id :: "string option"
  m_sport_key :: "string option"
  m_home_team :: "string option"
  m_away_team :: "string option"
  m_commence_time :: "string option"
  m_odds :: "odds_dict option"

text \<open>\<open>match.get("odds", {}).get("outcomes", [])\<close>\<close>

definition get_outcomes :: "match_dict \<Rightarrow> outcome_dict list" where
  "get_outcomes m = (case m_odds m of
      None \<Rightarrow> []
    | Some odds \<Rightarrow> (case outcomes odds of None \<Rightarrow> [] | Some os \<Rightarrow> os))"

text \<open>\<open>not match\<close> for a dict: true of the empty dict.\<close>

definition empty_dict :: "match_dict \<Rightarrow> bool" where
  "empty_dict m = (m_id m = None \<and> m_sport_key m = None \<and> m_home_team m = None
     \<and> m_away_team m = None \<and> m_commence_time m = None \<and> m_odds m = None)"

text \<open>The rows of \<open>models.py\<close>; \<open>match_id\<close> is the only nullable column.\<close>

record user =
  user_id :: int
  whatsapp_number :: string
  coins_balance :: int
  referral_code :: string

record bet =
  bet_id :: int
  bet_user_id :: int
  sport_key :: string
  event_name :: string
  match_id :: "string option"
  status :: string
  cost :: int

text \<open>
  An entry of \<open>user_state\<close> is a dict with the key \<open>state\<close> and the payload keys the
  handler stored with it; a user without an entry is idle.
\<close>

datatype conv_state = Select_sport | Select_tournament | Select_match | Place_bet

record state_dict =
  state :: conv_state
  sport :: "string option"
  tournament :: "string option"
  matches :: "match_dict list option"
  match :: "match_dict option"

record server =
  user_state :: "string \<rightharpoonup> state_dict"
  users :: "user list"
  bets :: "bet list"

text \<open>
  One webhook request: whether the Twilio signature validates, the form fields, and what
  the outside world answers during the request (the referral code drawn from \<open>uuid4\<close>, the
  matches the gateway returns for an event key, \<open>[]\<close> on an HTTP error).
\<close>

record request =
  valid_signature :: bool
  form_Body :: "string option"
  form_From :: "string option"
  uuid_code :: string
  fetch_matches :: "string \<Rightarrow> match_dict list"

datatype emoji = Blue | Green | Red | White

text \<open>
  A message is the template the handler fills and the values it interpolates; lists are
  numbered from 1 in the order given.
\<close>

datatype message =
    ExitMsg
  | Welcome
  | NoTournaments
  | TournamentList string "string option list"
  | InvalidSportSelection "string list"
  | InvalidTournamentInput
  | NoMatches
  | MatchList "string option" "(string option \<times> string option \<times> string option) list"
  | InvalidTournamentSelection
  | InvalidMatchInput
  | NoOutcomes
  | OutcomeList "string option" "string option" "string option"
      "(string option \<times> rat option) list"
  | InvalidMatchSelection
  | BetFormatError
  | NoMatchSelected
  | BetPlaced "string option" "rat option" int int
  | InsufficientBalance
  | InvalidBetSelection
  | InvalidBetCommand
  | SportList "string list"
  | AccountDetails int string "(string \<times> string option \<times> int \<times> emoji \<times> string) list"
      "int option"
  | AccountNoBets int string
  | InvalidCommand

datatype response = Response nat | Raise exn

type_synonym result = "response \<times> message list \<times> server"

section \<open>The account store\<close>

definition next_id :: "int list \<Rightarrow> int" where
  "next_id ids = 1 + fold max ids 0"

definition find_user :: "server \<Rightarrow> string \<Rightarrow> user option" where
  "find_user srv from_number = find (\<lambda>u. whatsapp_number u = from_number) (users srv)"

text \<open>
  Lines 177-183: the row of a new user, with 500 coins and the referral code taken from
  \<open>uuid4\<close>; the database assigns the next id.
\<close>

definition new_user :: "request \<Rightarrow> string \<Rightarrow> server \<Rightarrow> user" where
  "new_user req from_number srv =
     \<lparr>user_id = next_id (map user_id (users srv)), whatsapp_number = from_number,
      coins_balance = 500, referral_code = uuid_code req\<rparr>"

text \<open>
  Lines 171-196: load the user, or create it and send the welcome message.
  \<open>referral_code\<close> is a unique column, so the commit fails when the code is in use.
\<close>

definition get_or_create_user ::
    "request \<Rightarrow> string \<Rightarrow> server \<Rightarrow> exn + (user \<times> message list \<times> server)" where
  "get_or_create_user req from_number srv = (case find_user srv from_number of
      Some u \<Rightarrow> Inr (u, [], srv)
    | None \<Rightarrow>
        if uuid_code req \<in> set (map referral_code (users srv)) then Inl IntegrityError
        else (let u = new_user req from_number srv
              in Inr (u, [Welcome], srv\<lparr>users := users srv @ [u]\<rparr>)))"

text \<open>\<open>order_by(Bet.bet_id.desc()).limit(5)\<close> over the user's bets.\<close>

definition recent_bets :: "server \<Rightarrow> user \<Rightarrow> bet list" where
  "recent_bets srv u =
     take 5 (sort_key (\<lambda>b. - bet_id b) (filter (\<lambda>b. bet_user_id b = user_id u) (bets srv)))"

definition count_bets :: "server \<Rightarrow> user \<Rightarrow> int" where
  "count_bets srv u = int (length (filter (\<lambda>b. bet_user_id b = user_id u) (bets srv)))"

section \<open>The conversation state machine\<close>

definition pop_state :: "string \<Rightarrow> server \<Rightarrow> server" where
  "pop_state from_number srv = srv\<lparr>user_state := (user_state srv)(from_number := None)\<rparr>"

definition set_state :: "string \<Rightarrow> state_dict \<Rightarrow> server \<Rightarrow> server" where
  "set_state from_number st srv = srv\<lparr>user_state := (user_state srv)(from_number \<mapsto> st)\<rparr>"

text \<open>How an f-string prints a value that may be \<open>None\<close>.\<close>

definition fstr :: "string option \<Rightarrow> string" where
  "fstr v = (case v of None \<Rightarrow> ''None'' | Some s \<Rightarrow> s)"

text \<open>
  Lines 206-208: \<open>sport_mapping\<close> maps the 1-based numbers and then the lower-cased names to
  the sports; a later assignment to a key replaces an earlier one.
\<close>

definition sport_mapping :: "string list \<Rightarrow> string \<rightharpoonup> string" where
  "sport_mapping sports =
     map_of (rev (zip (map str_nat [1 ..< Suc (length sports)]) sports
                  @ map (\<lambda>sport. (lower sport, sport)) sports))"

text \<open>Lines 204-239, state \<open>select_sport\<close>.\<close>

definition handle_select_sport :: "catalog \<Rightarrow> string \<Rightarrow> string \<Rightarrow> server \<Rightarrow> result" where
  "handle_select_sport sports_list from_number incoming_msg srv =
     (let sports = map fst sports_list;
          invalid = (Response 200, [InvalidSportSelection sports], srv)
      in case sport_mapping sports incoming_msg of
           None \<Rightarrow> invalid
         | Some selected_sport \<Rightarrow>
             if selected_sport = [] then invalid
             else (case map_of sports_list selected_sport of
                 None \<Rightarrow> invalid
               | Some tournaments \<Rightarrow>
                   (let active_tournaments = filter active tournaments
                    in if active_tournaments = []
                       then (Response 200, [NoTournaments], pop_state from_number srv)
                       else (Response 200,
                             [TournamentList selected_sport (map title active_tournaments)],
                             set_state from_number
                               \<lparr>state = Select_tournament, sport = Some selected_sport,
                                tournament = None, matches = None, match = None\<rparr> srv))))"

text \<open>Lines 274-285: one line per match; the first exception ends the loop.\<close>

fun match_lines ::
    "match_dict list \<Rightarrow> exn + (string option \<times> string option \<times> string option) list" where
  "match_lines [] = Inr []"
| "match_lines (m # ms) = (case format_commence_time (m_commence_time m) of
      Inl e \<Rightarrow> Inl e
    | Inr formatted_time \<Rightarrow> (case match_lines ms of
          Inl e \<Rightarrow> Inl e
        | Inr ls \<Rightarrow> Inr ((m_home_team m, m_away_team m, formatted_time) # ls)))"

text \<open>
  Lines 241-293, state \<open>select_tournament\<close>. The new state is stored before the match
  list is formatted.
\<close>

definition handle_select_tournament ::
    "catalog \<Rightarrow> request \<Rightarrow> string \<Rightarrow> string \<Rightarrow> state_dict \<Rightarrow> server \<Rightarrow> result" where
  "handle_select_tournament sports_list req from_number incoming_msg st srv =
     (case py_int incoming_msg of
        None \<Rightarrow> (Response 200, [InvalidTournamentInput], srv)
      | Some n \<Rightarrow>
          (let tournament_idx = n - 1; selected_sport = sport st
           in case (case selected_sport of None \<Rightarrow> None | Some s \<Rightarrow> map_of sports_list s) of
                None \<Rightarrow> (Raise KeyError, [], srv)
              | Some tournaments \<Rightarrow>
                  (let active_tournaments = filter active tournaments
                   in if 0 \<le> tournament_idx \<and> tournament_idx < int (length active_tournaments)
                      then (let selected_tournament = active_tournaments ! nat tournament_idx
                            in case key selected_tournament of
                                 None \<Rightarrow> (Raise AttributeError, [], srv)
                               | Some k \<Rightarrow>
                                   (let event_key = replace_char CHR '' '' CHR ''_'' (lower k);
                                        fetched = fetch_matches req event_key
                                    in if fetched = []
                                       then (Response 200, [NoMatches], pop_state from_number srv)
                                       else (let srv' = set_state from_number
                                                   \<lparr>state = Select_match, sport = selected_sport,
                                                    tournament = title selected_tournament,
                                                    matches = Some fetched, match = None\<rparr> srv
                                             in case match_lines fetched of
                                                  Inl e \<Rightarrow> (Raise e, [], srv')
                                                | Inr ls \<Rightarrow>
                                                    (Response 200,
                                                     [MatchList (title selected_tournament) ls],
                                                     srv'))))
                      else (Response 200, [InvalidTournamentSelection], srv))))"

text \<open>Lines 295-352, state \<open>select_match\<close>.\<close>

definition handle_select_match ::
    "string \<Rightarrow> string \<Rightarrow> state_dict \<Rightarrow> server \<Rightarrow> result" where
  "handle_select_match from_number incoming_msg st srv =
     (case py_int incoming_msg of
        None \<Rightarrow> (Response 200, [InvalidMatchInput], srv)
      | Some n \<Rightarrow>
          (let match_idx = n - 1;
               stored = (case matches st of None \<Rightarrow> [] | Some ms \<Rightarrow> ms)
           in if 0 \<le> match_idx \<and> match_idx < int (length stored)
              then (let selected_match = stored ! nat match_idx;
                        outs = get_outcomes selected_match
                    in if outs = [] then (Response 200, [NoOutcomes], srv)
                       else (case format_commence_time (m_commence_time selected_match) of
                           Inl e \<Rightarrow> (Raise e, [], srv)
                         | Inr formatted_time \<Rightarrow>
                             (Response 200,
                              [OutcomeList (m_home_team selected_match)
                                 (m_away_team selected_match) formatted_time
                                 (map (\<lambda>outcome. (name outcome, price outcome)) outs)],
                              set_state from_number
                                \<lparr>state = Place_bet, sport = sport st,
                                 tournament = tournament st, matches = None,
                                 match = Some selected_match\<rparr> srv)))
              else (Response 200, [InvalidMatchSelection], srv)))"

definition bet_cost :: int where
  "bet_cost = 10"

text \<open>
  Lines 381-408: the balance is decremented and the bet added in one commit. \<open>sport_key\<close>
  is a non-nullable column, so the commit fails when the stored match has no sport key.
\<close>

definition place ::
    "string \<Rightarrow> user \<Rightarrow> match_dict \<Rightarrow> outcome_dict \<Rightarrow> server \<Rightarrow> result" where
  "place from_number usr m selected_outcome srv =
     (case m_sport_key m of
        None \<Rightarrow> (Raise IntegrityError, [], srv)
      | Some sk \<Rightarrow>
          (let new_balance = coins_balance usr - bet_cost;
               new_bet = \<lparr>bet_id = next_id (map bet_id (bets srv)), bet_user_id = user_id usr,
                          sport_key = sk,
                          event_name = fstr (m_home_team m) @ '' vs '' @ fstr (m_away_team m),
                          match_id = m_id m, status = ''placed'', cost = bet_cost\<rparr>;
               srv' = srv\<lparr>users := map (\<lambda>u. if user_id u = user_id usr
                                               then u\<lparr>coins_balance := new_balance\<rparr> else u)
                                         (users srv),
                          bets := bets srv @ [new_bet]\<rparr>
           in (Response 200,
               [BetPlaced (name selected_outcome) (price selected_outcome) bet_cost new_balance],
               pop_state from_number srv')))"

text \<open>Lines 354-417, state \<open>place_bet\<close>.\<close>

definition handle_place_bet ::
    "string \<Rightarrow> string \<Rightarrow> user \<Rightarrow> state_dict \<Rightarrow> server \<Rightarrow> result" where
  "handle_place_bet from_number incoming_msg usr st srv =
     (if startswith incoming_msg ''bet''
      then (case split incoming_msg of
          [p0, p1] \<Rightarrow>
            if \<not> isdigit p1 then (Response 200, [BetFormatError], srv)
            else (case py_int p1 of
                None \<Rightarrow> (Raise ValueError, [], srv)
              | Some n \<Rightarrow>
                  (let bet_choice = n - 1;
                       no_match = (Response 200, [NoMatchSelected], pop_state from_number srv)
                   in case match st of
                        None \<Rightarrow> no_match
                      | Some m \<Rightarrow>
                          if empty_dict m then no_match
                          else (let outs = get_outcomes m
                                in if 0 \<le> bet_choice \<and> bet_choice < int (length outs)
                                   then (if coins_balance usr \<ge> bet_cost
                                         then place from_number usr m (outs ! nat bet_choice) srv
                                         else (Response 200, [InsufficientBalance], srv))
                                   else (Response 200, [InvalidBetSelection], srv))))
        | _ \<Rightarrow> (Response 200, [BetFormatError], srv))
      else (Response 200, [InvalidBetCommand], srv))"

text \<open>Lines 447-454.\<close>

definition status_emoji :: "string \<Rightarrow> emoji" where
  "status_emoji s = (let l = lower s in
     if l = ''placed'' then Blue else if l = ''won'' then Green
     else if l = ''lost'' then Red else White)"

text \<open>
  Lines 432-477, \<open>my account\<close>. Each line carries the event name, match id, cost, status
  emoji and status of one bet (the text shows the status capitalised).
\<close>

definition account_message :: "user \<Rightarrow> server \<Rightarrow> message" where
  "account_message usr srv =
     (let shown = recent_bets srv usr
      in if shown \<noteq> []
         then (let total_bets = count_bets srv usr
               in AccountDetails (coins_balance usr) (referral_code usr)
                    (map (\<lambda>b. (event_name b, match_id b, cost b, status_emoji (status b),
                               status b)) shown)
                    (if total_bets > 5 then Some (total_bets - 5) else None))
         else AccountNoBets (coins_balance usr) (referral_code usr))"

text \<open>Lines 419-491, no state entry (idle).\<close>

definition handle_idle :: "catalog \<Rightarrow> string \<Rightarrow> string \<Rightarrow> user \<Rightarrow> server \<Rightarrow> result" where
  "handle_idle sports_list from_number incoming_msg usr srv =
     (if incoming_msg = ''start''
      then (Response 200, [SportList (map fst sports_list)],
            set_state from_number
              \<lparr>state = Select_sport, sport = None, tournament = None, matches = None,
               match = None\<rparr> srv)
      else if incoming_msg = ''my account''
      then (Response 200, [account_message usr srv], srv)
      else (Response 200, [InvalidCommand], srv))"

text \<open>Lines 198-203: the branch on the stored state.\<close>

definition dispatch ::
    "catalog \<Rightarrow> request \<Rightarrow> string \<Rightarrow> string \<Rightarrow> user \<Rightarrow> server \<Rightarrow> result" where
  "dispatch sports_list req from_number incoming_msg usr srv =
     (case user_state srv from_number of
        None \<Rightarrow> handle_idle sports_list from_number incoming_msg usr srv
      | Some st \<Rightarrow> (case state st of
            Select_sport \<Rightarrow> handle_select_sport sports_list from_number incoming_msg srv
          | Select_tournament \<Rightarrow>
              handle_select_tournament sports_list req from_number incoming_msg st srv
          | Select_match \<Rightarrow> handle_select_match from_number incoming_msg st srv
          | Place_bet \<Rightarrow> handle_place_bet from_number incoming_msg usr st srv))"

definition form_get :: "string option \<Rightarrow> string" where
  "form_get v = (case v of None \<Rightarrow> [] | Some s \<Rightarrow> s)"

text \<open>Lines 147-148: \<open>form.get('Body', '').strip().lower()\<close> and \<open>form.get('From', '').strip()\<close>.\<close>

definition request_msg :: "request \<Rightarrow> string" where
  "request_msg req = lower (strip (form_get (form_Body req)))"

definition request_from :: "request \<Rightarrow> string" where
  "request_from req = strip (form_get (form_From req))"

text \<open>
  \<open>receive_message\<close>, lines 131-491: signature check, \<open>exit\<close>, the account, the state
  machine. The result is the response to the transport, the messages sent to the sender in
  order, and the server afterwards (what was committed or stored before an exception stays).
\<close>

definition receive_message :: "catalog \<Rightarrow> request \<Rightarrow> server \<Rightarrow> result" where
  "receive_message sports_list req srv =
     (if \<not> valid_signature req then (Raise (HTTPException 403), [], srv)
      else (let incoming_msg = request_msg req;
                from_number = request_from req
            in if from_number = [] then (Response 200, [], srv)
               else if incoming_msg = ''exit'' \<and> user_state srv from_number \<noteq> None
               then (Response 200, [ExitMsg], pop_state from_number srv)
               else (case get_or_create_user req from_number srv of
                   Inl e \<Rightarrow> (Raise e, [], srv)
                 | Inr (usr, greeting, srv1) \<Rightarrow>
                     (case dispatch sports_list req from_number incoming_msg usr srv1 of
                        (r, ms, srv2) \<Rightarrow> (r, greeting @ ms, srv2)))))"

definition response_of :: "result \<Rightarrow> response" where
  "response_of r = fst r"

definition sent :: "result \<Rightarrow> message list" where
  "sent r = fst (snd r)"

definition after :: "result \<Rightarrow> server" where
  "after r = snd (snd r)"

section \<open>Properties of the state machine: vocabulary\<close>

text \<open>The messages that reject an input as invalid or malformed.\<close>

fun invalid_input :: "message \<Rightarrow> bool" where
  "invalid_input (InvalidSportSelection _) = True"
| "invalid_input InvalidTournamentInput = True"
| "invalid_input InvalidTournamentSelection = True"
| "invalid_input InvalidMatchInput = True"
| "invalid_input InvalidMatchSelection = True"
| "invalid_input BetFormatError = True"
| "invalid_input InvalidBetSelection = True"
| "invalid_input InvalidBetCommand = True"
| "invalid_input InvalidCommand = True"
| "invalid_input _ = False"

text \<open>An entry of \<open>user_state\<close> that is well-formed for its tag.\<close>

definition well_formed_entry :: "catalog \<Rightarrow> state_dict \<Rightarrow> bool" where
  "well_formed_entry sports_list st = (case state st of
      Select_sport \<Rightarrow> True
    | Select_tournament \<Rightarrow>
        (case sport st of None \<Rightarrow> False | Some s \<Rightarrow> map_of sports_list s \<noteq> None)
    | Select_match \<Rightarrow> (case matches st of None \<Rightarrow> False | Some ms \<Rightarrow> ms \<noteq> [])
    | Place_bet \<Rightarrow> (case match st of None \<Rightarrow> False | Some m \<Rightarrow> get_outcomes m \<noteq> []))"

definition well_formed :: "catalog \<Rightarrow> server \<Rightarrow> bool" where
  "well_formed sports_list srv =
     (\<forall>num st. user_state srv num = Some st \<longrightarrow> well_formed_entry sports_list st)"

section \<open>Sample data\<close>

definition sample_catalog :: catalog where
  "sample_catalog =
     [(''Soccer'', [\<lparr>title = Some ''EPL'', key = Some ''soccer epl'', active = True\<rparr>])]"

definition sample_match :: match_dict where
  "sample_match = \<lparr>m_id = Some ''m1'', m_sport_key = Some ''soccer_epl'',
     m_home_team = Some ''Arsenal'', m_away_team = Some ''Chelsea'',
     m_commence_time = Some ''2024-09-14T11:30:00Z'',
     m_odds = Some \<lparr>outcomes = Some [\<lparr>name = Some ''Arsenal'', price = Some 2\<rparr>,
                                      \<lparr>name = Some ''Chelsea'', price = Some 3\<rparr>]\<rparr>\<rparr>"

definition sample_user :: "int \<Rightarrow> user" where
  "sample_user balance = \<lparr>user_id = 1, whatsapp_number = ''whatsapp:+15550001'',
     coins_balance = balance, referral_code = ''1A2B3C4D''\<rparr>"

definition sample_request :: "string \<Rightarrow> request" where
  "sample_request body = \<lparr>valid_signature = True, form_Body = Some body,
     form_From = Some ''whatsapp:+15550001'', uuid_code = ''9F8E7D6C'',
     fetch_matches = (\<lambda>event_key. [sample_match])\<rparr>"

definition sample_server :: "int \<Rightarrow> state_dict option \<Rightarrow> server" where
  "sample_server balance entry =
     \<lparr>user_state = (\<lambda>num. if num = ''whatsapp:+15550001'' then entry else None),
      users = [sample_user balance], bets = []\<rparr>"

definition sample_bet :: "int \<Rightarrow> int \<Rightarrow> string \<Rightarrow> bet" where
  "sample_bet i uid st = \<lparr>bet_id = i, bet_user_id = uid, sport_key = ''soccer_epl'',
     event_name = ''Arsenal vs Chelsea'', match_id = Some ''m1'', status = st, cost = 10\<rparr>"

definition sample_ledger :: "bet list" where
  "sample_ledger = [sample_bet 1 1 ''won'', sample_bet 2 1 ''lost'', sample_bet 3 2 ''placed'',
     sample_bet 4 1 ''placed'', sample_bet 5 1 ''placed'', sample_bet 6 1 ''pending'',
     sample_bet 7 1 ''placed'']"

definition other_user :: user where
  "other_user = \<lparr>user_id = 1, whatsapp_number = ''whatsapp:+15550002'', coins_balance = 500,
     referral_code = ''9F8E7D6C''\<rparr>"

definition in_place_bet :: "match_dict \<Rightarrow> state_dict" where
  "in_place_bet m = \<lparr>state = Place_bet, sport = Some ''Soccer'', tournament = Some ''EPL'',
     matches = None, match = Some m\<rparr>"

definition in_select_match :: "match_dict list \<Rightarrow> state_dict" where
  "in_select_match ms = \<lparr>state = Select_match, sport = Some ''Soccer'',
     tournament = Some ''EPL'', matches = Some ms, match = None\<rparr>"

definition in_select_tournament :: "state_dict" where
  "in_select_tournament = \<lparr>state = Select_tournament, sport = Some ''Soccer'',
     tournament = None, matches = None, match = None\<rparr>"

definition in_select_sport :: "state_dict" where
  "in_select_sport = \<lparr>state = Select_sport, sport = None, tournament = None,
     matches = None, match = None\<rparr>"

definition match_without_time :: match_dict where
  "match_without_time = sample_match\<lparr>m_commence_time := None\<rparr>"

section \<open>Sequences of requests\<close>

fun serve :: "catalog \<Rightarrow> request list \<Rightarrow> server \<Rightarrow> server" where
  "serve sports_list [] srv = srv"
| "serve sports_list (req # reqs) srv =
     serve sports_list reqs (after (receive_message sports_list req srv))"

section \<open>String lemmas\<close>

lemma decimal_not_space: "is_decimal c \<Longrightarrow> \<not> isspace c"
  by (auto simp: is_decimal_def isspace_def Let_def)

lemma decimal_isdigit_char: "is_decimal c \<Longrightarrow> isdigit_char c"
  by (simp add: is_decimal_def isdigit_char_def Let_def)

lemma decimal_not_sign:
  "is_decimal c \<Longrightarrow> c \<noteq> CHR ''-'' \<and> c \<noteq> CHR ''+'' \<and> c \<noteq> CHR ''_''"
  by (auto simp: is_decimal_def code_point_def Let_def)

lemma split_from_word:
  "list_all (\<lambda>c. \<not> isspace c) w \<Longrightarrow>
     split_from cur w = (if cur = [] \<and> w = [] then [] else [rev cur @ w])"
  by (induction w arbitrary: cur) auto

lemma dropWhile_none: "\<forall>x\<in>set xs. \<not> P x \<Longrightarrow> dropWhile P xs = xs"
  by (cases xs) auto

lemma strip_word: "list_all (\<lambda>c. \<not> isspace c) w \<Longrightarrow> strip w = w"
  by (simp add: strip_def list_all_iff dropWhile_none)

lemma int_body_digits: "d \<noteq> [] \<Longrightarrow> list_all is_decimal d \<Longrightarrow> int_body d"
  by (induction d rule: int_body.induct) (auto dest: decimal_not_sign)

lemma filter_digits: "list_all is_decimal d \<Longrightarrow> filter (\<lambda>c. c \<noteq> CHR ''_'') d = d"
  by (induction d) (auto dest: decimal_not_sign)

lemma py_int_digits:
  assumes "d \<noteq> []" "list_all is_decimal d"
  shows "py_int d = Some (int (digits_val d))"
proof -
  from assms(2) have ns: "list_all (\<lambda>c. \<not> isspace c) d"
    by (auto simp: list_all_iff dest: decimal_not_space)
  obtain c cs where d: "d = c # cs" using assms(1) by (cases d) auto
  with assms(2) have c: "is_decimal c" by simp
  have "py_int d = (if int_body d
      then Some (int (digits_val (filter (\<lambda>c. c \<noteq> CHR ''_'') d))) else None)"
    using decimal_not_sign[OF c]
    by (simp add: py_int_def strip_word[OF ns] d[symmetric] list.case_eq_if) (simp add: d)
  then show ?thesis
    using int_body_digits[OF assms] filter_digits[OF assms(2)] by simp
qed

lemma bet_command_parts:
  assumes "d \<noteq> []" "list_all is_decimal d"
  shows "startswith (''bet '' @ d) ''bet''" "split (''bet '' @ d) = [''bet'', d]" "isdigit d"
proof -
  show "startswith (''bet '' @ d) ''bet''" by (simp add: startswith_def)
  from assms(2) have ns: "list_all (\<lambda>c. \<not> isspace c) d"
    by (auto simp: list_all_iff dest: decimal_not_space)
  show "split (''bet '' @ d) = [''bet'', d]"
    using assms(1) by (simp add: split_def isspace_def code_point_def split_from_word[OF ns])
  show "isdigit d"
    using assms by (auto simp: isdigit_def list_all_iff dest: decimal_isdigit_char)
qed

section \<open>Account and dispatch lemmas\<close>

lemma find_map_preserved:
  "(\<And>u. P (f u) = P u) \<Longrightarrow> find P (map f us) = map_option f (find P us)"
  by (induction us) auto

lemma find_user_same_id:
  assumes "find_user srv num = Some usr"
  shows "find_user (srv\<lparr>users := map (\<lambda>u. if user_id u = user_id usr
            then u\<lparr>coins_balance := b\<rparr> else u) (users srv), bets := bs\<rparr>) num
         = Some (usr\<lparr>coins_balance := b\<rparr>)"
proof -
  let ?f = "\<lambda>u. if user_id u = user_id usr then u\<lparr>coins_balance := b\<rparr> else u"
  have "find (\<lambda>u. whatsapp_number u = num) (map ?f (users srv))
        = map_option ?f (find (\<lambda>u. whatsapp_number u = num) (users srv))"
    by (rule find_map_preserved) simp
  with assms show ?thesis by (simp add: find_user_def)
qed

lemma receive_message_known:
  assumes "valid_signature req" "request_from req = num" "num \<noteq> []"
    and "find_user srv num = Some usr" "user_state srv num = Some st"
    and "request_msg req \<noteq> ''exit''"
  shows "receive_message cat req srv = dispatch cat req num (request_msg req) usr srv"
  using assms by (simp add: receive_message_def get_or_create_user_def Let_def split: prod.splits)

lemmas string_defs = strip_def lower_def lower_char_def upper_chars_def lower_chars_def
  isspace_def code_point_def split_def startswith_def isdigit_def isdigit_char_def
  is_decimal_def digits_val_def digit_val_def py_int_def replace_char_def

lemmas handler_defs = receive_message_def request_msg_def request_from_def form_get_def
  get_or_create_user_def new_user_def find_user_def dispatch_def handle_idle_def handle_select_sport_def
  handle_select_tournament_def handle_select_match_def handle_place_bet_def place_def
  bet_cost_def pop_state_def set_state_def get_outcomes_def empty_dict_def fstr_def
  next_id_def response_of_def sent_def after_def

lemmas sample_defs = sample_catalog_def sample_match_def sample_user_def sample_request_def
  sample_server_def sample_bet_def sample_ledger_def match_without_time_def other_user_def in_place_bet_def in_select_match_def in_select_tournament_def
  in_select_sport_def

lemma py_int_exit: "py_int ''exit'' = None"
  by (simp add: string_defs)

section \<open>Bet placement\<close>

text \<open>
  Claim C1, as amended. A user in state \<open>place_bet\<close> whose stored match carries a sport key
  sends \<open>bet n\<close>, with \<open>n\<close> a 1-based index into the stored match's outcomes, and has at
  least 10 coins. The request succeeds, the only message sent is the confirmation with the
  chosen outcome's team and price, the cost 10 and the new balance, the user's balance is
  lower by exactly 10, exactly one bet is appended, with status \<open>placed\<close>, cost 10 and the
  match id and sport key of the stored match, and the user's state entry is removed.
\<close>

theorem bet_placed:
  assumes sig: "valid_signature req"
    and sender: "request_from req = num" "num \<noteq> []"
    and msg: "request_msg req = ''bet '' @ d" "d \<noteq> []" "list_all is_decimal d"
    and acct: "find_user srv num = Some usr" "coins_balance usr \<ge> 10"
    and st: "user_state srv num = Some st" "state st = Place_bet" "match st = Some m"
    and n: "1 \<le> digits_val d" "digits_val d \<le> length (get_outcomes m)"
    and sk: "m_sport_key m = Some sk"
  shows "response_of (receive_message cat req srv) = Response 200
    \<and> sent (receive_message cat req srv) =
        [BetPlaced (name (get_outcomes m ! (digits_val d - 1)))
           (price (get_outcomes m ! (digits_val d - 1))) 10 (coins_balance usr - 10)]
    \<and> find_user (after (receive_message cat req srv)) num =
        Some (usr\<lparr>coins_balance := coins_balance usr - 10\<rparr>)
    \<and> users (after (receive_message cat req srv)) =
        map (\<lambda>u. if user_id u = user_id usr
                  then u\<lparr>coins_balance := coins_balance usr - 10\<rparr> else u) (users srv)
    \<and> bets (after (receive_message cat req srv)) = bets srv @
        [\<lparr>bet_id = next_id (map bet_id (bets srv)), bet_user_id = user_id usr,
          sport_key = sk,
          event_name = fstr (m_home_team m) @ '' vs '' @ fstr (m_away_team m),
          match_id = m_id m, status = ''placed'', cost = 10\<rparr>]
    \<and> user_state (after (receive_message cat req srv)) = (user_state srv)(num := None)"
proof -
  have ne: "request_msg req \<noteq> ''exit''" using msg(1) by simp
  have nonempty: "\<not> empty_dict m" using sk by (simp add: empty_dict_def)
  have idx: "nat (int (digits_val d) - 1) = digits_val d - 1" by simp
  have "receive_message cat req srv = handle_place_bet num (''bet '' @ d) usr st srv"
    using receive_message_known[OF sig sender acct(1) st(1) ne] st(1,2) msg(1)
    by (simp add: dispatch_def)
  also have "\<dots> = place num usr m (get_outcomes m ! (digits_val d - 1)) srv"
    using bet_command_parts[OF msg(2,3)] py_int_digits[OF msg(2,3)] st(3) nonempty n acct(2)
    by (simp add: handle_place_bet_def bet_cost_def Let_def idx del: append.simps)
  finally have run: "receive_message cat req srv =
      place num usr m (get_outcomes m ! (digits_val d - 1)) srv" .
  have "find_user (after (receive_message cat req srv)) num =
        Some (usr\<lparr>coins_balance := coins_balance usr - 10\<rparr>)"
    using sk find_user_same_id[OF acct(1)]
    by (simp add: run place_def bet_cost_def pop_state_def Let_def after_def find_user_def)
  then show ?thesis
    using sk
    by (simp add: run place_def bet_cost_def pop_state_def Let_def after_def sent_def
        response_of_def)
qed

theorem bet_placed_witness:
  "coins_balance (sample_user 500) \<ge> 10
   \<and> sent (receive_message sample_catalog (sample_request ''bet 1'')
        (sample_server 500 (Some (in_place_bet sample_match)))) =
       [BetPlaced (Some ''Arsenal'') (Some 2) 10 490]
   \<and> find_user (after (receive_message sample_catalog (sample_request ''bet 1'')
        (sample_server 500 (Some (in_place_bet sample_match))))) ''whatsapp:+15550001'' =
       Some (sample_user 490)
   \<and> bets (after (receive_message sample_catalog (sample_request ''bet 1'')
        (sample_server 500 (Some (in_place_bet sample_match))))) =
       [\<lparr>bet_id = 1, bet_user_id = 1, sport_key = ''soccer_epl'',
         event_name = ''Arsenal vs Chelsea'', match_id = Some ''m1'', status = ''placed'',
         cost = 10\<rparr>]
   \<and> user_state (after (receive_message sample_catalog (sample_request ''bet 1'')
        (sample_server 500 (Some (in_place_bet sample_match))))) ''whatsapp:+15550001'' = None"
  using bet_placed [of "sample_request ''bet 1''" "''whatsapp:+15550001''" "''1''"
      "sample_server 500 (Some (in_place_bet sample_match))" "sample_user 500"
      "in_place_bet sample_match" sample_match "''soccer_epl''" sample_catalog]
  by (simp add: sample_defs string_defs request_msg_def request_from_def form_get_def
      find_user_def get_outcomes_def fstr_def next_id_def)

text \<open>
  The claim as stated does not ask for the sport key. \<open>Bet.sport_key\<close> is declared
  \<open>nullable=False\<close>, so for a stored match without the key \<open>sport_key\<close> the commit is
  refused: nothing is sent, the balance stays 500, no bet is stored and the state stays.
\<close>

theorem bet_without_sport_key_counterexample:
  "receive_message sample_catalog (sample_request ''bet 1'')
     (sample_server 500 (Some (in_place_bet (sample_match\<lparr>m_sport_key := None\<rparr>)))) =
   (Raise IntegrityError, [],
    sample_server 500 (Some (in_place_bet (sample_match\<lparr>m_sport_key := None\<rparr>))))"
  by (simp add: sample_defs string_defs handler_defs Let_def)

text \<open>
  Claim C2. A user in state \<open>place_bet\<close> sends \<open>bet n\<close> with \<open>n\<close> in range of the stored
  outcomes and has fewer than 10 coins: the only message is the insufficient-balance one
  and the server is unchanged (balance, ledger and state entry alike).
\<close>

theorem insufficient_balance:
  assumes sig: "valid_signature req"
    and sender: "request_from req = num" "num \<noteq> []"
    and msg: "request_msg req = ''bet '' @ d" "d \<noteq> []" "list_all is_decimal d"
    and acct: "find_user srv num = Some usr" "coins_balance usr < 10"
    and st: "user_state srv num = Some st" "state st = Place_bet" "match st = Some m"
    and n: "1 \<le> digits_val d" "digits_val d \<le> length (get_outcomes m)"
  shows "receive_message cat req srv = (Response 200, [InsufficientBalance], srv)"
proof -
  have ne: "request_msg req \<noteq> ''exit''" using msg(1) by simp
  have nonempty: "\<not> empty_dict m"
    using n by (auto simp: empty_dict_def get_outcomes_def)
  have "receive_message cat req srv = handle_place_bet num (''bet '' @ d) usr st srv"
    using receive_message_known[OF sig sender acct(1) st(1) ne] st(1,2) msg(1)
    by (simp add: dispatch_def)
  also have "\<dots> = (Response 200, [InsufficientBalance], srv)"
    using bet_command_parts[OF msg(2,3)] py_int_digits[OF msg(2,3)] st(3) nonempty n acct(2)
    by (simp add: handle_place_bet_def bet_cost_def Let_def del: append.simps)
  finally show ?thesis .
qed

theorem insufficient_balance_witness:
  "coins_balance (sample_user 5) < 10
   \<and> receive_message sample_catalog (sample_request ''bet 1'')
        (sample_server 5 (Some (in_place_bet sample_match))) =
      (Response 200, [InsufficientBalance],
       sample_server 5 (Some (in_place_bet sample_match)))"
  using insufficient_balance [of "sample_request ''bet 1''" "''whatsapp:+15550001''" "''1''"
      "sample_server 5 (Some (in_place_bet sample_match))" "sample_user 5"
      "in_place_bet sample_match" sample_match sample_catalog]
  by (simp add: sample_defs string_defs request_msg_def request_from_def form_get_def
      find_user_def get_outcomes_def)

section \<open>Selecting a match without outcomes\<close>

text \<open>
  Claim C3, as amended. A user in state \<open>select_match\<close> sends an in-range 1-based index
  of a match that has no outcomes: the only message is the no-outcomes one, which asks for
  another match, and the server is unchanged, so the user stays in \<open>select_match\<close> with
  the same stored matches.
\<close>

theorem no_outcomes_keeps_state:
  assumes sig: "valid_signature req"
    and sender: "request_from req = num" "num \<noteq> []"
    and msg: "py_int (request_msg req) = Some n" "1 \<le> n" "n \<le> int (length ms)"
    and acct: "find_user srv num = Some usr"
    and st: "user_state srv num = Some st" "state st = Select_match" "matches st = Some ms"
    and empty: "get_outcomes (ms ! nat (n - 1)) = []"
  shows "receive_message cat req srv = (Response 200, [NoOutcomes], srv)"
proof -
  have ne: "request_msg req \<noteq> ''exit''" using msg(1) py_int_exit by auto
  have "receive_message cat req srv = handle_select_match num (request_msg req) st srv"
    using receive_message_known[OF sig sender acct st(1) ne] st(1,2)
    by (simp add: dispatch_def)
  also have "\<dots> = (Response 200, [NoOutcomes], srv)"
    using msg st(3) empty by (simp add: handle_select_match_def Let_def)
  finally show ?thesis .
qed

theorem no_outcomes_keeps_state_witness:
  "receive_message sample_catalog (sample_request ''1'')
     (sample_server 500 (Some (in_select_match [sample_match\<lparr>m_odds := None\<rparr>]))) =
   (Response 200, [NoOutcomes],
    sample_server 500 (Some (in_select_match [sample_match\<lparr>m_odds := None\<rparr>])))
   \<and> get_outcomes (sample_match\<lparr>m_odds := None\<rparr>) = []"
  using no_outcomes_keeps_state [of "sample_request ''1''" "''whatsapp:+15550001''" 1
      "[sample_match\<lparr>m_odds := None\<rparr>]"
      "sample_server 500 (Some (in_select_match [sample_match\<lparr>m_odds := None\<rparr>]))"
      "sample_user 500" "in_select_match [sample_match\<lparr>m_odds := None\<rparr>]" sample_catalog]
  by (simp add: sample_defs string_defs request_msg_def request_from_def form_get_def
      find_user_def get_outcomes_def)

text \<open>The claim as stated has the entry discarded; the entry is still there.\<close>

theorem no_outcomes_not_idle_counterexample:
  "sent (receive_message sample_catalog (sample_request ''1'')
     (sample_server 500 (Some (in_select_match [sample_match\<lparr>m_odds := None\<rparr>]))))
     = [NoOutcomes]
   \<and> user_state (after (receive_message sample_catalog (sample_request ''1'')
     (sample_server 500 (Some (in_select_match [sample_match\<lparr>m_odds := None\<rparr>])))))
     ''whatsapp:+15550001'' \<noteq> None"
  by (simp add: sample_defs string_defs handler_defs Let_def)

section \<open>The exit command\<close>

lemma receive_message_idle:
  assumes "valid_signature req" "request_from req = num" "num \<noteq> []"
    and "find_user srv num = Some usr" "user_state srv num = None"
  shows "receive_message cat req srv = handle_idle cat num (request_msg req) usr srv"
  using assms
  by (simp add: receive_message_def get_or_create_user_def dispatch_def Let_def
      split: prod.splits)

lemma find_user_pop [simp]: "find_user (pop_state num srv) n = find_user srv n"
  by (simp add: find_user_def pop_state_def)

lemma find_append_none:
  "find P xs = None \<Longrightarrow> find P (xs @ ys) = find P ys"
  by (induction xs) (auto split: if_splits)

lemma find_user_new:
  "find_user srv num = None \<Longrightarrow>
     find_user (srv\<lparr>users := users srv @ [new_user req num srv]\<rparr>) num
       = Some (new_user req num srv)"
  by (simp add: find_user_def find_append_none new_user_def)

lemma receive_message_first:
  assumes "valid_signature req" "request_from req = num" "num \<noteq> []"
    and "find_user srv num = None" "user_state srv num = None"
    and "uuid_code req \<notin> set (map referral_code (users srv))"
  shows "receive_message cat req srv =
     (case handle_idle cat num (request_msg req) (new_user req num srv)
             (srv\<lparr>users := users srv @ [new_user req num srv]\<rparr>) of
        (r, ms, srv') \<Rightarrow> (r, Welcome # ms, srv'))"
  using assms
  by (simp add: receive_message_def get_or_create_user_def dispatch_def Let_def
      split: prod.splits)

text \<open>
  Claim C4. A message that is \<open>exit\<close> after trimming and lower-casing, from a sender with
  a state entry, removes the entry and sends the exit confirmation, whatever the entry is
  and before the account is even looked up: afterwards the sender has no entry and nothing
  else of the server has changed. Without an entry the message is not intercepted: it
  reaches the idle handler and gets the invalid-command help (after the welcome message,
  for a first contact). A \<open>start\<close> after the reset sends the list of sports and stores
  for the sender a \<open>select_sport\<close> entry with no sport, tournament or match in it.
\<close>

theorem exit_resets:
  assumes sig: "valid_signature req"
    and sender: "request_from req = num" "num \<noteq> []"
    and msg: "request_msg req = ''exit''"
    and again: "valid_signature req2" "request_from req2 = num" "request_msg req2 = ''start''"
  shows "(user_state srv num \<noteq> None \<longrightarrow>
            receive_message cat req srv = (Response 200, [ExitMsg], pop_state num srv)
            \<and> user_state (pop_state num srv) num = None)
    \<and> (user_state srv num = None \<and> find_user srv num = Some usr \<longrightarrow>
            receive_message cat req srv = (Response 200, [InvalidCommand], srv))
    \<and> (user_state srv num = None \<and> find_user srv num = None
          \<and> uuid_code req \<notin> set (map referral_code (users srv)) \<longrightarrow>
            receive_message cat req srv =
              (Response 200, [Welcome, InvalidCommand],
               srv\<lparr>users := users srv @ [new_user req num srv]\<rparr>))
    \<and> (find_user srv num = Some usr \<longrightarrow>
            receive_message cat req2 (pop_state num srv) =
              (Response 200, [SportList (map fst cat)],
               set_state num \<lparr>state = Select_sport, sport = None, tournament = None,
                               matches = None, match = None\<rparr> (pop_state num srv)))
    \<and> (user_state srv num \<noteq> None \<longrightarrow>
            after (receive_message cat req srv)
              = srv\<lparr>user_state := (user_state srv)(num := None)\<rparr>
            \<and> user_state (after (receive_message cat req srv)) num = None)
    \<and> (user_state srv num \<noteq> None \<and> find_user srv num = Some usr \<longrightarrow>
            sent (receive_message cat req2 (after (receive_message cat req srv)))
              = [SportList (map fst cat)]
            \<and> after (receive_message cat req2 (after (receive_message cat req srv)))
              = srv\<lparr>user_state := (user_state srv)(num \<mapsto>
                    \<lparr>state = Select_sport, sport = None, tournament = None,
                     matches = None, match = None\<rparr>)\<rparr>
            \<and> user_state (after (receive_message cat req2 (after (receive_message cat req srv))))
                  num
              = Some \<lparr>state = Select_sport, sport = None, tournament = None,
                       matches = None, match = None\<rparr>)"
proof -
  have exit: "receive_message cat req srv = (Response 200, [ExitMsg], pop_state num srv)"
    if "user_state srv num \<noteq> None"
    using that sig sender msg by (simp add: receive_message_def Let_def)
  have start: "receive_message cat req2 (pop_state num srv) =
      (Response 200, [SportList (map fst cat)],
       set_state num \<lparr>state = Select_sport, sport = None, tournament = None,
                       matches = None, match = None\<rparr> (pop_state num srv))"
    if "find_user srv num = Some usr"
    using that receive_message_idle[OF again(1,2) sender(2), of "pop_state num srv" usr cat]
      again(3)
    by (simp add: handle_idle_def) (simp add: pop_state_def)
  have idle: "receive_message cat req srv = (Response 200, [InvalidCommand], srv)"
    if "user_state srv num = None \<and> find_user srv num = Some usr"
    using that receive_message_idle[OF sig sender, of srv usr cat] msg
    by (simp add: handle_idle_def)
  have first: "receive_message cat req srv =
      (Response 200, [Welcome, InvalidCommand],
       srv\<lparr>users := users srv @ [new_user req num srv]\<rparr>)"
    if "user_state srv num = None \<and> find_user srv num = None
          \<and> uuid_code req \<notin> set (map referral_code (users srv))"
    using that receive_message_first[OF sig sender, of srv cat] msg
    by (simp add: handle_idle_def)
  have popped: "user_state (pop_state num srv) num = None"
    by (simp add: pop_state_def)
  have gone: "after (receive_message cat req srv)
        = srv\<lparr>user_state := (user_state srv)(num := None)\<rparr>
      \<and> user_state (after (receive_message cat req srv)) num = None"
    if "user_state srv num \<noteq> None"
    using exit[OF that] by (simp add: after_def pop_state_def)
  have fresh: "sent (receive_message cat req2 (after (receive_message cat req srv)))
        = [SportList (map fst cat)]
      \<and> after (receive_message cat req2 (after (receive_message cat req srv)))
        = srv\<lparr>user_state := (user_state srv)(num \<mapsto>
              \<lparr>state = Select_sport, sport = None, tournament = None,
               matches = None, match = None\<rparr>)\<rparr>
      \<and> user_state (after (receive_message cat req2 (after (receive_message cat req srv)))) num
        = Some \<lparr>state = Select_sport, sport = None, tournament = None,
                 matches = None, match = None\<rparr>"
    if "user_state srv num \<noteq> None \<and> find_user srv num = Some usr"
  proof -
    from that have a: "after (receive_message cat req srv) = pop_state num srv"
      using exit by (simp add: after_def)
    from that have b: "receive_message cat req2 (pop_state num srv) =
      (Response 200, [SportList (map fst cat)],
       set_state num \<lparr>state = Select_sport, sport = None, tournament = None,
                       matches = None, match = None\<rparr> (pop_state num srv))"
      using start by simp
    show ?thesis
      unfolding a b by (simp add: after_def sent_def set_state_def pop_state_def)
  qed
  show ?thesis
    using exit start idle first popped gone fresh by blast
qed

theorem exit_resets_witness:
  "receive_message sample_catalog (sample_request '' Exit '')
       (sample_server 500 (Some (in_place_bet sample_match))) =
     (Response 200, [ExitMsg],
      pop_state ''whatsapp:+15550001'' (sample_server 500 (Some (in_place_bet sample_match))))
   \<and> receive_message sample_catalog (sample_request ''start'')
       (pop_state ''whatsapp:+15550001'' (sample_server 500 (Some (in_place_bet sample_match)))) =
     (Response 200, [SportList [''Soccer'']],
      set_state ''whatsapp:+15550001'' in_select_sport
        (pop_state ''whatsapp:+15550001''
           (sample_server 500 (Some (in_place_bet sample_match)))))
   \<and> receive_message sample_catalog (sample_request '' Exit '') (sample_server 500 None) =
     (Response 200, [InvalidCommand], sample_server 500 None)
   \<and> receive_message sample_catalog (sample_request '' Exit '')
       \<lparr>user_state = Map.empty, users = [], bets = []\<rparr> =
     (Response 200, [Welcome, InvalidCommand],
      \<lparr>user_state = Map.empty,
       users = [\<lparr>user_id = 1, whatsapp_number = ''whatsapp:+15550001'', coins_balance = 500,
                 referral_code = ''9F8E7D6C''\<rparr>],
       bets = []\<rparr>)
   \<and> user_state (after (receive_message sample_catalog (sample_request '' Exit '')
       (sample_server 500 (Some (in_place_bet sample_match))))) ''whatsapp:+15550001'' = None
   \<and> sent (receive_message sample_catalog (sample_request ''start'')
       (after (receive_message sample_catalog (sample_request '' Exit '')
          (sample_server 500 (Some (in_place_bet sample_match)))))) = [SportList [''Soccer'']]
   \<and> user_state (after (receive_message sample_catalog (sample_request ''start'')
       (after (receive_message sample_catalog (sample_request '' Exit '')
          (sample_server 500 (Some (in_place_bet sample_match))))))) ''whatsapp:+15550001''
     = Some \<lparr>state = Select_sport, sport = None, tournament = None, matches = None,
              match = None\<rparr>"
proof -
  let ?num = "''whatsapp:+15550001''"
  let ?exit = "sample_request '' Exit ''" and ?start = "sample_request ''start''"
  let ?busy = "sample_server 500 (Some (in_place_bet sample_match))"
  let ?idle = "sample_server 500 None"
  let ?new = "\<lparr>user_state = Map.empty, users = [], bets = []\<rparr> :: server"
  have sig: "valid_signature ?exit" "valid_signature ?start"
    by (simp_all add: sample_request_def)
  have sender: "request_from ?exit = ?num" "request_from ?start = ?num"
    by (simp_all add: sample_request_def request_from_def form_get_def string_defs)
  have ne: "?num \<noteq> []" by simp
  have msg: "request_msg ?exit = ''exit''" "request_msg ?start = ''start''"
    by (simp_all add: sample_request_def request_msg_def form_get_def string_defs)
  note t = exit_resets[OF sig(1) sender(1) ne msg(1) sig(2) sender(2) msg(2)]
  have busy: "user_state ?busy ?num \<noteq> None" "find_user ?busy ?num = Some (sample_user 500)"
    by (simp_all add: sample_server_def find_user_def sample_user_def)
  have idle: "user_state ?idle ?num = None" "find_user ?idle ?num = Some (sample_user 500)"
    by (simp_all add: sample_server_def find_user_def sample_user_def)
  have new: "user_state ?new ?num = None" "find_user ?new ?num = None"
      "uuid_code ?exit \<notin> set (map referral_code (users ?new))"
    by (simp_all add: find_user_def)
  from t[of ?busy sample_catalog "sample_user 500"] busy
  have a: "receive_message sample_catalog ?exit ?busy
        = (Response 200, [ExitMsg], pop_state ?num ?busy)"
    and b: "receive_message sample_catalog ?start (pop_state ?num ?busy) =
        (Response 200, [SportList (map fst sample_catalog)],
         set_state ?num \<lparr>state = Select_sport, sport = None, tournament = None,
                          matches = None, match = None\<rparr> (pop_state ?num ?busy))"
    and c: "user_state (after (receive_message sample_catalog ?exit ?busy)) ?num = None"
    and d: "sent (receive_message sample_catalog ?start
              (after (receive_message sample_catalog ?exit ?busy)))
            = [SportList (map fst sample_catalog)]"
    and e: "user_state (after (receive_message sample_catalog ?start
              (after (receive_message sample_catalog ?exit ?busy)))) ?num
            = Some \<lparr>state = Select_sport, sport = None, tournament = None,
                     matches = None, match = None\<rparr>"
    by blast+
  from t[of ?idle sample_catalog "sample_user 500"] idle
  have f: "receive_message sample_catalog ?exit ?idle = (Response 200, [InvalidCommand], ?idle)"
    by blast
  from t[of ?new sample_catalog "sample_user 500"] new
  have g: "receive_message sample_catalog ?exit ?new =
      (Response 200, [Welcome, InvalidCommand],
       ?new\<lparr>users := users ?new @ [new_user ?exit ?num ?new]\<rparr>)"
    by blast
  have cat: "map fst sample_catalog = [''Soccer'']" by (simp add: sample_catalog_def)
  have u: "?new\<lparr>users := users ?new @ [new_user ?exit ?num ?new]\<rparr> =
      \<lparr>user_state = Map.empty,
       users = [\<lparr>user_id = 1, whatsapp_number = ?num, coins_balance = 500,
                 referral_code = ''9F8E7D6C''\<rparr>],
       bets = []\<rparr>"
    by (simp add: new_user_def next_id_def sample_request_def)
  have b': "receive_message sample_catalog ?start (pop_state ?num ?busy) =
      (Response 200, [SportList [''Soccer'']],
       set_state ?num in_select_sport (pop_state ?num ?busy))"
    using b unfolding cat in_select_sport_def .
  have d': "sent (receive_message sample_catalog ?start
              (after (receive_message sample_catalog ?exit ?busy))) = [SportList [''Soccer'']]"
    using d unfolding cat .
  have g': "receive_message sample_catalog ?exit ?new =
      (Response 200, [Welcome, InvalidCommand],
       \<lparr>user_state = Map.empty,
        users = [\<lparr>user_id = 1, whatsapp_number = ?num, coins_balance = 500,
                  referral_code = ''9F8E7D6C''\<rparr>],
        bets = []\<rparr>)"
    using g unfolding u .
  show ?thesis
    by (intro conjI a b' f g' c d' e)
qed

section \<open>The account summary\<close>







section \<open>First contact\<close>

text \<open>
  A validly signed message from a sender with no account and no state entry, where the
  referral code just generated is not in use: a user row with that sender, 500 coins and
  that code is added (so referral codes stay distinct), the welcome message is sent first,
  and the same message is then handled by the idle handler in the same request, for the
  new user.
\<close>

lemma first_contact:
  assumes sig: "valid_signature req"
    and sender: "request_from req = num" "num \<noteq> []"
    and unseen: "find_user srv num = None" "user_state srv num = None"
    and fresh: "uuid_code req \<notin> set (map referral_code (users srv))"
  shows "receive_message cat req srv =
       (case handle_idle cat num (request_msg req) (new_user req num srv)
               (srv\<lparr>users := users srv @ [new_user req num srv]\<rparr>) of
          (r, ms, srv') \<Rightarrow> (r, Welcome # ms, srv'))
    \<and> response_of (receive_message cat req srv) = Response 200
    \<and> hd (sent (receive_message cat req srv)) = Welcome
    \<and> users (after (receive_message cat req srv)) = users srv @ [new_user req num srv]
    \<and> find_user (after (receive_message cat req srv)) num = Some (new_user req num srv)
    \<and> whatsapp_number (new_user req num srv) = num
    \<and> coins_balance (new_user req num srv) = 500
    \<and> referral_code (new_user req num srv) = uuid_code req
    \<and> (distinct (map referral_code (users srv)) \<longrightarrow>
         distinct (map referral_code (users (after (receive_message cat req srv)))))"
proof -
  let ?srv1 = "srv\<lparr>users := users srv @ [new_user req num srv]\<rparr>"
  have run: "receive_message cat req srv =
       (case handle_idle cat num (request_msg req) (new_user req num srv) ?srv1 of
          (r, ms, srv') \<Rightarrow> (r, Welcome # ms, srv'))"
    by (rule receive_message_first[OF sig sender unseen fresh])
  obtain r ms srv' where h: "handle_idle cat num (request_msg req) (new_user req num srv) ?srv1
      = (r, ms, srv')"
    by (cases "handle_idle cat num (request_msg req) (new_user req num srv) ?srv1") auto
  then have ok: "r = Response 200" and same: "users srv' = users ?srv1"
    by (auto simp: handle_idle_def set_state_def split: if_splits)
  have us: "users (after (receive_message cat req srv)) = users srv @ [new_user req num srv]"
    using same by (simp add: run h after_def)
  have "find_user (after (receive_message cat req srv)) num = Some (new_user req num srv)"
    using find_user_new[OF unseen(1), of req] us by (simp add: find_user_def)
  moreover have "response_of (receive_message cat req srv) = Response 200"
    using ok by (simp add: run h response_of_def)
  moreover have "hd (sent (receive_message cat req srv)) = Welcome"
    by (simp add: run h sent_def)
  ultimately show ?thesis
    using run us fresh by (simp add: new_user_def)
qed

lemma first_contact_sample:
  "receive_message sample_catalog (sample_request ''start'')
     \<lparr>user_state = Map.empty, users = [], bets = []\<rparr> =
   (Response 200, [Welcome, SportList [''Soccer'']],
    \<lparr>user_state = [''whatsapp:+15550001'' \<mapsto> in_select_sport],
     users = [\<lparr>user_id = 1, whatsapp_number = ''whatsapp:+15550001'', coins_balance = 500,
               referral_code = ''9F8E7D6C''\<rparr>],
     bets = []\<rparr>)"
  using first_contact [of "sample_request ''start''" "''whatsapp:+15550001''"
      "\<lparr>user_state = Map.empty, users = [], bets = []\<rparr>" sample_catalog]
  by (simp add: sample_defs string_defs request_msg_def request_from_def form_get_def
      find_user_def new_user_def next_id_def handle_idle_def set_state_def)

text \<open>When the generated code is already in use the commit is refused.\<close>

lemma referral_code_in_use:
  assumes "valid_signature req" "request_from req = num" "num \<noteq> []"
    and "find_user srv num = None" "user_state srv num = None"
    and "uuid_code req \<in> set (map referral_code (users srv))"
  shows "receive_message cat req srv = (Raise IntegrityError, [], srv)"
  using assms by (simp add: receive_message_def get_or_create_user_def Let_def)

text \<open>
  Claim C9 fails on the code when the code drawn for a new sender is one already stored.
  Lines 175-177 take the first eight hexadecimal digits of a \<open>uuid4\<close> (the comment:
  "Generate a unique referral code") and nothing checks them against the stored codes, so
  the draw can repeat a stored code; \<open>referral_code\<close> is a unique column, and the commit
  at line 185 is then refused. The request ends with the exception: no user row, no
  welcome message, and the inbound message is not processed.
\<close>

theorem referral_code_collision_raises:
  "find_user \<lparr>user_state = Map.empty, users = [other_user], bets = []\<rparr>
      ''whatsapp:+15550001'' = None
   \<and> receive_message sample_catalog (sample_request ''start'')
       \<lparr>user_state = Map.empty, users = [other_user], bets = []\<rparr> =
     (Raise IntegrityError, [], \<lparr>user_state = Map.empty, users = [other_user], bets = []\<rparr>)"
  by (simp add: sample_defs string_defs handler_defs Let_def)

section \<open>Invalid input\<close>

text \<open>No handler sends a rejection and changes anything.\<close>

lemma place_invalid:
  "place num usr mt oc srv = (r, ms, srv') \<Longrightarrow> m \<in> set ms \<Longrightarrow> invalid_input m \<Longrightarrow> False"
  by (auto simp: place_def Let_def split: option.splits)

lemma handle_idle_invalid:
  "handle_idle cat num msg usr srv = (r, ms, srv') \<Longrightarrow> m \<in> set ms \<Longrightarrow> invalid_input m
     \<Longrightarrow> r = Response 200 \<and> srv' = srv \<and> ms = [m]"
  by (auto simp: handle_idle_def account_message_def Let_def split: if_splits)

lemma handle_select_sport_invalid:
  "handle_select_sport cat num msg srv = (r, ms, srv') \<Longrightarrow> m \<in> set ms \<Longrightarrow> invalid_input m
     \<Longrightarrow> r = Response 200 \<and> srv' = srv \<and> ms = [m]"
  by (auto simp: handle_select_sport_def Let_def split: option.splits if_splits)

lemma handle_select_tournament_invalid:
  "handle_select_tournament cat req num msg st srv = (r, ms, srv') \<Longrightarrow> m \<in> set ms
     \<Longrightarrow> invalid_input m \<Longrightarrow> r = Response 200 \<and> srv' = srv \<and> ms = [m]"
  by (auto simp: handle_select_tournament_def Let_def
      split: option.splits if_splits sum.splits)

lemma handle_select_match_invalid:
  "handle_select_match num msg st srv = (r, ms, srv') \<Longrightarrow> m \<in> set ms
     \<Longrightarrow> invalid_input m \<Longrightarrow> r = Response 200 \<and> srv' = srv \<and> ms = [m]"
  by (auto simp: handle_select_match_def Let_def
      split: option.splits if_splits sum.splits)

lemma handle_place_bet_invalid:
  "handle_place_bet num msg usr st srv = (r, ms, srv') \<Longrightarrow> m \<in> set ms
     \<Longrightarrow> invalid_input m \<Longrightarrow> r = Response 200 \<and> srv' = srv \<and> ms = [m]"
  by (auto simp: handle_place_bet_def Let_def
      split: option.splits if_splits list.splits dest: place_invalid)

lemma dispatch_invalid:
  assumes "dispatch cat req num msg usr srv = (r, ms, srv')" "m \<in> set ms" "invalid_input m"
  shows "r = Response 200 \<and> srv' = srv \<and> ms = [m]"
proof (cases "user_state srv num")
  case None
  with assms show ?thesis by (auto simp: dispatch_def dest: handle_idle_invalid)
next
  case (Some st)
  with assms show ?thesis
    by (cases "state st")
      (auto simp: dispatch_def dest: handle_select_sport_invalid
        handle_select_tournament_invalid handle_select_match_invalid handle_place_bet_invalid)
qed

text \<open>
  Whenever a request is answered with a rejection of the input (invalid or out-of-range
  selection, malformed bet command, unrecognised command), in whatever state the sender
  is, the request succeeds, the rejection is the last message sent, and the state map and
  the ledger are unchanged; the same request sent again gets exactly the same rejection
  and changes nothing.
\<close>

lemma invalid_input_no_drift:
  assumes m: "m \<in> set (sent (receive_message cat req srv))" and inv: "invalid_input m"
  shows "response_of (receive_message cat req srv) = Response 200
    \<and> last (sent (receive_message cat req srv)) = m
    \<and> user_state (after (receive_message cat req srv)) = user_state srv
    \<and> bets (after (receive_message cat req srv)) = bets srv
    \<and> receive_message cat req (after (receive_message cat req srv))
        = (Response 200, [m], after (receive_message cat req srv))"
proof -
  let ?num = "request_from req" and ?msg = "request_msg req"
  have sig: "valid_signature req"
  proof (rule ccontr)
    assume "\<not> valid_signature req"
    then have "sent (receive_message cat req srv) = []"
      by (simp add: receive_message_def sent_def)
    with m show False by simp
  qed
  have num: "?num \<noteq> []"
  proof
    assume "?num = []"
    then have "sent (receive_message cat req srv) = []"
      using sig by (simp add: receive_message_def sent_def Let_def)
    with m show False by simp
  qed
  have noexit: "\<not> (?msg = ''exit'' \<and> user_state srv ?num \<noteq> None)"
  proof
    assume "?msg = ''exit'' \<and> user_state srv ?num \<noteq> None"
    then have "sent (receive_message cat req srv) = [ExitMsg]"
      using sig num by (simp add: receive_message_def sent_def Let_def)
    with m inv show False by simp
  qed
  show ?thesis
  proof (cases "find_user srv ?num")
    case (Some usr)
    have run: "receive_message cat req srv = dispatch cat req ?num ?msg usr srv"
      using sig num noexit Some
      by (auto simp: receive_message_def get_or_create_user_def Let_def split: prod.splits)
    obtain r ms srv' where d: "dispatch cat req ?num ?msg usr srv = (r, ms, srv')"
      by (cases "dispatch cat req ?num ?msg usr srv") auto
    from m have "m \<in> set ms" by (simp add: run d sent_def)
    from dispatch_invalid[OF d this inv] have "r = Response 200" "srv' = srv" "ms = [m]"
      by auto
    then show ?thesis
      by (simp add: run d response_of_def sent_def after_def)
  next
    case None
    let ?u = "new_user req ?num srv"
    let ?srv1 = "srv\<lparr>users := users srv @ [?u]\<rparr>"
    have fresh: "uuid_code req \<notin> set (map referral_code (users srv))"
    proof
      assume "uuid_code req \<in> set (map referral_code (users srv))"
      then have "sent (receive_message cat req srv) = []"
        using sig num noexit None
        by (auto simp: receive_message_def get_or_create_user_def sent_def Let_def)
      with m show False by simp
    qed
    obtain r ms srv' where d: "dispatch cat req ?num ?msg ?u ?srv1 = (r, ms, srv')"
      by (cases "dispatch cat req ?num ?msg ?u ?srv1") auto
    have run: "receive_message cat req srv = (r, Welcome # ms, srv')"
      using sig num noexit None fresh d
      by (auto simp: receive_message_def get_or_create_user_def Let_def)
    from m inv have "m \<in> set ms" by (auto simp: run sent_def)
    from dispatch_invalid[OF d this inv]
    have res: "r = Response 200" "srv' = ?srv1" "ms = [m]" by auto
    have found: "find_user ?srv1 ?num = Some ?u"
      by (rule find_user_new[OF None])
    have again: "receive_message cat req ?srv1 = dispatch cat req ?num ?msg ?u ?srv1"
      using sig num noexit found
      by (auto simp: receive_message_def get_or_create_user_def Let_def split: prod.splits)
    show ?thesis
      using res by (simp add: run again d response_of_def sent_def after_def)
  qed
qed

lemma invalid_input_no_drift_sample:
  "receive_message sample_catalog (sample_request ''first'')
     (sample_server 500 (Some in_select_tournament)) =
   (Response 200, [InvalidTournamentInput], sample_server 500 (Some in_select_tournament))
   \<and> receive_message sample_catalog (sample_request ''7'')
     (sample_server 500 (Some (in_select_match [sample_match]))) =
   (Response 200, [InvalidMatchSelection],
    sample_server 500 (Some (in_select_match [sample_match])))
   \<and> receive_message sample_catalog (sample_request ''bet one'')
     (sample_server 500 (Some (in_place_bet sample_match))) =
   (Response 200, [BetFormatError], sample_server 500 (Some (in_place_bet sample_match)))"
proof -
  have a: "receive_message sample_catalog (sample_request ''first'')
     (sample_server 500 (Some in_select_tournament)) =
    (Response 200, [InvalidTournamentInput], sample_server 500 (Some in_select_tournament))"
    by (simp add: sample_defs string_defs handler_defs Let_def)
  have b: "receive_message sample_catalog (sample_request ''7'')
     (sample_server 500 (Some (in_select_match [sample_match]))) =
    (Response 200, [InvalidMatchSelection],
     sample_server 500 (Some (in_select_match [sample_match])))"
    by (simp add: sample_defs string_defs handler_defs Let_def)
  have c: "receive_message sample_catalog (sample_request ''bet one'')
     (sample_server 500 (Some (in_place_bet sample_match))) =
    (Response 200, [BetFormatError], sample_server 500 (Some (in_place_bet sample_match)))"
    by (simp add: sample_defs string_defs handler_defs Let_def)
  have "InvalidTournamentInput \<in> set (sent (receive_message sample_catalog
      (sample_request ''first'') (sample_server 500 (Some in_select_tournament))))"
    by (simp add: a sent_def)
  from invalid_input_no_drift[OF this] a b c show ?thesis by simp
qed

text \<open>
  The inputs each state rejects, with the message they get; the server is unchanged in
  every case.
\<close>

lemma bet_not_exit: "startswith msg ''bet'' \<Longrightarrow> msg \<noteq> ''exit''"
  by (auto simp: startswith_def)

lemma unrecognised_command_rejected:
  assumes "valid_signature req" "request_from req = num" "num \<noteq> []"
    and "find_user srv num = Some usr" "user_state srv num = None"
    and "request_msg req \<noteq> ''start''" "request_msg req \<noteq> ''my account''"
  shows "receive_message cat req srv = (Response 200, [InvalidCommand], srv)"
  using receive_message_idle[OF assms(1-5), of cat] assms(6,7)
  by (simp add: handle_idle_def)

lemma invalid_sport_rejected:
  assumes "valid_signature req" "request_from req = num" "num \<noteq> []"
    and "find_user srv num = Some usr" "user_state srv num = Some st"
    and "request_msg req \<noteq> ''exit''"
    and "state st = Select_sport"
    and "sport_mapping (map fst cat) (request_msg req) = None"
  shows "receive_message cat req srv
    = (Response 200, [InvalidSportSelection (map fst cat)], srv)"
  using receive_message_known[OF assms(1-6), of cat] assms(5,7,8)
  by (simp add: dispatch_def handle_select_sport_def Let_def)

lemma invalid_tournament_rejected:
  assumes "valid_signature req" "request_from req = num" "num \<noteq> []"
    and "find_user srv num = Some usr" "user_state srv num = Some st"
    and "request_msg req \<noteq> ''exit''"
    and "state st = Select_tournament"
  shows "py_int (request_msg req) = None \<longrightarrow>
      receive_message cat req srv = (Response 200, [InvalidTournamentInput], srv)"
    and "py_int (request_msg req) = Some n \<and> sport st = Some s \<and> map_of cat s = Some ts
        \<and> (n < 1 \<or> int (length (filter active ts)) < n) \<longrightarrow>
      receive_message cat req srv = (Response 200, [InvalidTournamentSelection], srv)"
  using receive_message_known[OF assms(1-6), of cat] assms(5,7)
  by (auto simp: dispatch_def handle_select_tournament_def Let_def)

lemma invalid_match_rejected:
  assumes "valid_signature req" "request_from req = num" "num \<noteq> []"
    and "find_user srv num = Some usr" "user_state srv num = Some st"
    and "request_msg req \<noteq> ''exit''"
    and "state st = Select_match"
  shows "py_int (request_msg req) = None \<longrightarrow>
      receive_message cat req srv = (Response 200, [InvalidMatchInput], srv)"
    and "py_int (request_msg req) = Some n \<and> matches st = Some ms
        \<and> (n < 1 \<or> int (length ms) < n) \<longrightarrow>
      receive_message cat req srv = (Response 200, [InvalidMatchSelection], srv)"
  using receive_message_known[OF assms(1-6), of cat] assms(5,7)
  by (auto simp: dispatch_def handle_select_match_def Let_def)

lemma malformed_bet_rejected:
  assumes "valid_signature req" "request_from req = num" "num \<noteq> []"
    and "find_user srv num = Some usr" "user_state srv num = Some st"
    and "request_msg req \<noteq> ''exit''"
    and "state st = Place_bet"
  shows "\<not> startswith (request_msg req) ''bet'' \<longrightarrow>
      receive_message cat req srv = (Response 200, [InvalidBetCommand], srv)"
    and "startswith (request_msg req) ''bet'' \<and> length (split (request_msg req)) \<noteq> 2 \<longrightarrow>
      receive_message cat req srv = (Response 200, [BetFormatError], srv)"
    and "startswith (request_msg req) ''bet'' \<and> split (request_msg req) = [p0, p1]
        \<and> \<not> isdigit p1 \<longrightarrow>
      receive_message cat req srv = (Response 200, [BetFormatError], srv)"
    and "startswith (request_msg req) ''bet'' \<and> split (request_msg req) = [p0, p1]
        \<and> isdigit p1 \<and> py_int p1 = Some n \<and> match st = Some m \<and> \<not> empty_dict m
        \<and> (n < 1 \<or> int (length (get_outcomes m)) < n) \<longrightarrow>
      receive_message cat req srv = (Response 200, [InvalidBetSelection], srv)"
proof -
  have run: "receive_message cat req srv
      = handle_place_bet num (request_msg req) usr st srv"
    using receive_message_known[OF assms(1-6), of cat] assms(5,7)
    by (simp add: dispatch_def)
  show "\<not> startswith (request_msg req) ''bet'' \<longrightarrow>
      receive_message cat req srv = (Response 200, [InvalidBetCommand], srv)"
    by (simp add: run handle_place_bet_def)
  show "startswith (request_msg req) ''bet'' \<and> length (split (request_msg req)) \<noteq> 2 \<longrightarrow>
      receive_message cat req srv = (Response 200, [BetFormatError], srv)"
    by (auto simp: run handle_place_bet_def split: list.splits)
  show "startswith (request_msg req) ''bet'' \<and> split (request_msg req) = [p0, p1]
        \<and> \<not> isdigit p1 \<longrightarrow>
      receive_message cat req srv = (Response 200, [BetFormatError], srv)"
    by (simp add: run handle_place_bet_def)
  show "startswith (request_msg req) ''bet'' \<and> split (request_msg req) = [p0, p1]
        \<and> isdigit p1 \<and> py_int p1 = Some n \<and> match st = Some m \<and> \<not> empty_dict m
        \<and> (n < 1 \<or> int (length (get_outcomes m)) < n) \<longrightarrow>
      receive_message cat req srv = (Response 200, [InvalidBetSelection], srv)"
    by (auto simp: run handle_place_bet_def Let_def)
qed

text \<open>
  A bet command whose second token passes \<open>str.isdigit\<close> and is not an integer literal is
  not rejected: \<open>int\<close> raises \<open>ValueError\<close>, which nothing catches there.
\<close>

lemma unparsed_bet_number_raises:
  assumes "valid_signature req" "request_from req = num" "num \<noteq> []"
    and "find_user srv num = Some usr" "user_state srv num = Some st"
    and "state st = Place_bet"
    and "startswith (request_msg req) ''bet''" "split (request_msg req) = [p0, p1]"
    and "isdigit p1" "py_int p1 = None"
  shows "receive_message cat req srv = (Raise ValueError, [], srv)"
  using receive_message_known[OF assms(1-5) bet_not_exit[OF assms(7)], of cat] assms(5-10)
  by (simp add: dispatch_def handle_place_bet_def)

text \<open>
  Claim C6 fails on the code for a malformed bet command such as \<open>bet \<close> followed by the
  superscript two (code point 178): the guard \<open>parts[1].isdigit()\<close> lets it pass, since
  \<open>str.isdigit\<close> accepts superscript digits, and \<open>int(parts[1])\<close> then raises
  \<open>ValueError\<close>. The request ends with the exception and no message is sent, where the
  claim has an invalid-input message.
\<close>

theorem superscript_bet_raises:
  "isdigit [CHR 0xB2] \<and> py_int [CHR 0xB2] = None
   \<and> receive_message sample_catalog (sample_request (''bet '' @ [CHR 0xB2]))
       (sample_server 500 (Some (in_place_bet sample_match))) =
     (Raise ValueError, [], sample_server 500 (Some (in_place_bet sample_match)))"
  by (simp add: sample_defs string_defs handler_defs Let_def)

section \<open>Well-formed state entries\<close>

lemma well_formed_pop: "well_formed cat srv \<Longrightarrow> well_formed cat (pop_state num srv)"
  by (simp add: well_formed_def pop_state_def)

lemma well_formed_set:
  "well_formed cat srv \<Longrightarrow> well_formed_entry cat st \<Longrightarrow> well_formed cat (set_state num st srv)"
  by (simp add: well_formed_def set_state_def)

lemma well_formed_db [simp]:
  "well_formed cat (srv\<lparr>users := us\<rparr>) = well_formed cat srv"
  "well_formed cat (srv\<lparr>bets := bs\<rparr>) = well_formed cat srv"
  by (simp_all add: well_formed_def)

lemma outcomes_not_empty_dict: "get_outcomes m \<noteq> [] \<Longrightarrow> \<not> empty_dict m"
  by (auto simp: get_outcomes_def empty_dict_def)

lemma format_commence_time_error:
  "format_commence_time t = Inl e \<Longrightarrow> e = TypeError \<and> t = None"
  by (auto simp: format_commence_time_def strptime_def
      split: option.splits list.splits if_splits sum.splits exn.splits prod.splits)

lemma match_lines_error: "match_lines ms = Inl e \<Longrightarrow> e = TypeError"
  by (induction ms arbitrary: e)
    (auto split: sum.splits dest: format_commence_time_error)

lemma place_well_formed:
  "place num usr mt oc srv = (r, ms, srv') \<Longrightarrow> well_formed cat srv
     \<Longrightarrow> well_formed cat srv' \<and> NoMatchSelected \<notin> set ms \<and> r \<noteq> Raise KeyError"
  by (auto simp: place_def Let_def well_formed_pop split: option.splits)

lemma handle_idle_well_formed:
  "handle_idle cat num msg usr srv = (r, ms, srv') \<Longrightarrow> well_formed cat srv
     \<Longrightarrow> well_formed cat srv' \<and> NoMatchSelected \<notin> set ms \<and> r \<noteq> Raise KeyError"
  by (auto simp: handle_idle_def account_message_def Let_def well_formed_entry_def
      intro!: well_formed_set split: if_splits)

lemma handle_select_sport_well_formed:
  "handle_select_sport cat num msg srv = (r, ms, srv') \<Longrightarrow> well_formed cat srv
     \<Longrightarrow> well_formed cat srv' \<and> NoMatchSelected \<notin> set ms \<and> r \<noteq> Raise KeyError"
  by (auto simp: handle_select_sport_def Let_def well_formed_entry_def well_formed_pop
      intro!: well_formed_set split: option.splits if_splits)

lemma handle_select_tournament_well_formed:
  "handle_select_tournament cat req num msg st srv = (r, ms, srv') \<Longrightarrow> well_formed cat srv
     \<Longrightarrow> well_formed_entry cat st \<Longrightarrow> state st = Select_tournament
     \<Longrightarrow> well_formed cat srv' \<and> NoMatchSelected \<notin> set ms \<and> r \<noteq> Raise KeyError"
  by (auto simp: handle_select_tournament_def Let_def well_formed_entry_def well_formed_pop
      intro!: well_formed_set split: option.splits if_splits sum.splits
      dest: match_lines_error)

lemma handle_select_match_well_formed:
  "handle_select_match num msg st srv = (r, ms, srv') \<Longrightarrow> well_formed cat srv
     \<Longrightarrow> well_formed cat srv' \<and> NoMatchSelected \<notin> set ms \<and> r \<noteq> Raise KeyError"
  by (auto simp: handle_select_match_def Let_def well_formed_entry_def
      intro!: well_formed_set split: option.splits if_splits sum.splits
      dest: format_commence_time_error)

lemma handle_place_bet_well_formed:
  "handle_place_bet num msg usr st srv = (r, ms, srv') \<Longrightarrow> well_formed cat srv
     \<Longrightarrow> well_formed_entry cat st \<Longrightarrow> state st = Place_bet
     \<Longrightarrow> well_formed cat srv' \<and> NoMatchSelected \<notin> set ms \<and> r \<noteq> Raise KeyError"
  by (auto simp: handle_place_bet_def Let_def well_formed_entry_def
      split: option.splits if_splits list.splits
      dest: place_well_formed outcomes_not_empty_dict)

lemma dispatch_well_formed:
  assumes "dispatch cat req num msg usr srv = (r, ms, srv')" "well_formed cat srv"
  shows "well_formed cat srv' \<and> NoMatchSelected \<notin> set ms \<and> r \<noteq> Raise KeyError"
proof (cases "user_state srv num")
  case None
  with assms show ?thesis
    using handle_idle_well_formed[of cat num msg usr srv r ms srv']
    by (simp add: dispatch_def)
next
  case (Some st)
  with assms(2) have wf: "well_formed_entry cat st" by (simp add: well_formed_def)
  show ?thesis
  proof (cases "state st")
    case Select_sport
    with assms Some show ?thesis
      using handle_select_sport_well_formed[of cat num msg srv r ms srv']
      by (simp add: dispatch_def)
  next
    case Select_tournament
    with assms Some wf show ?thesis
      using handle_select_tournament_well_formed[of cat req num msg st srv r ms srv']
      by (simp add: dispatch_def)
  next
    case Select_match
    with assms Some show ?thesis
      using handle_select_match_well_formed[of num msg st srv r ms srv' cat]
      by (simp add: dispatch_def)
  next
    case Place_bet
    with assms Some wf show ?thesis
      using handle_place_bet_well_formed[of num msg usr st srv r ms srv' cat]
      by (simp add: dispatch_def)
  qed
qed

lemma receive_message_well_formed:
  assumes wf: "well_formed cat srv"
  shows "well_formed cat (after (receive_message cat req srv))
    \<and> NoMatchSelected \<notin> set (sent (receive_message cat req srv))
    \<and> response_of (receive_message cat req srv) \<noteq> Raise KeyError"
proof -
  let ?num = "request_from req" and ?msg = "request_msg req"
  consider (rejected) "\<not> valid_signature req"
    | (nobody) "valid_signature req" "?num = []"
    | (exit) "valid_signature req" "?num \<noteq> []" "?msg = ''exit'' \<and> user_state srv ?num \<noteq> None"
    | (failed) e where "valid_signature req" "?num \<noteq> []"
        "\<not> (?msg = ''exit'' \<and> user_state srv ?num \<noteq> None)"
        "get_or_create_user req ?num srv = Inl e"
    | (run) usr greeting srv1 where "valid_signature req" "?num \<noteq> []"
        "\<not> (?msg = ''exit'' \<and> user_state srv ?num \<noteq> None)"
        "get_or_create_user req ?num srv = Inr (usr, greeting, srv1)"
    by (cases "get_or_create_user req ?num srv") (blast, metis prod_cases3)
  then show ?thesis
  proof cases
    case rejected
    then show ?thesis
      using wf by (simp add: receive_message_def after_def sent_def response_of_def)
  next
    case nobody
    then show ?thesis
      using wf by (simp add: receive_message_def after_def sent_def response_of_def)
  next
    case exit
    then show ?thesis
      using wf well_formed_pop[OF wf, of ?num]
      by (simp add: receive_message_def after_def sent_def response_of_def Let_def)
  next
    case failed
    then have "e = IntegrityError"
      by (auto simp: get_or_create_user_def Let_def split: option.splits if_splits)
    with failed show ?thesis
      using wf by (auto simp: receive_message_def after_def sent_def response_of_def Let_def)
  next
    case run
    then have wf1: "well_formed cat srv1" and g: "NoMatchSelected \<notin> set greeting"
      using wf by (auto simp: get_or_create_user_def Let_def split: option.splits if_splits)
    obtain r ms srv' where d: "dispatch cat req ?num ?msg usr srv1 = (r, ms, srv')"
      by (cases "dispatch cat req ?num ?msg usr srv1") auto
    from dispatch_well_formed[OF d wf1] g run d show ?thesis
      by (auto simp: receive_message_def after_def sent_def response_of_def Let_def)
  qed
qed

text \<open>
  Claim C10. If every entry of the state map is well-formed for its tag (a
  \<open>select_tournament\<close> entry names a sport of the catalog, a \<open>select_match\<close> entry holds
  a non-empty list of matches, a \<open>place_bet\<close> entry holds a match with outcomes), then so
  is every entry after a request, whatever the request and however it ends; the request
  never sends the no-match-selected message and the catalog lookup never raises
  \<open>KeyError\<close>.
\<close>

theorem state_entries_well_formed:
  assumes wf: "well_formed cat srv"
  shows "well_formed cat (after (receive_message cat req srv))
    \<and> NoMatchSelected \<notin> set (sent (receive_message cat req srv))
    \<and> response_of (receive_message cat req srv) \<noteq> Raise KeyError"
  using wf by (rule receive_message_well_formed)

theorem state_entries_well_formed_witness:
  "well_formed sample_catalog (sample_server 500 (Some in_select_tournament))
   \<and> receive_message sample_catalog (sample_request ''1'')
       (sample_server 500 (Some in_select_tournament)) =
     (Response 200,
      [MatchList (Some ''EPL'')
         [(Some ''Arsenal'', Some ''Chelsea'', Some ''September 14, 2024 at 11:30 UTC'')]],
      sample_server 500 (Some (in_select_match [sample_match])))
   \<and> well_formed sample_catalog (sample_server 500 (Some (in_select_match [sample_match])))"
proof -
  have wf: "well_formed sample_catalog (sample_server 500 (Some in_select_tournament))"
    by (simp add: well_formed_def well_formed_entry_def sample_defs)
  have run: "receive_message sample_catalog (sample_request ''1'')
       (sample_server 500 (Some in_select_tournament)) =
     (Response 200,
      [MatchList (Some ''EPL'')
         [(Some ''Arsenal'', Some ''Chelsea'', Some ''September 14, 2024 at 11:30 UTC'')]],
      sample_server 500 (Some (in_select_match [sample_match])))"
    by (simp add: sample_defs string_defs handler_defs Let_def fun_eq_iff
        format_commence_time_def strptime_def re_match_def re_Y_def re_m_def re_d_def re_H_def
        re_M_def re_S_def lit_def two_def one_def space_digit_def in_range_def
        days_in_month_def is_leap_def strftime_def month_name_def pad2_def str_nat.simps
        digit_char_def)
  from state_entries_well_formed[OF wf, of "sample_request ''1''"] wf run
  show ?thesis by (simp add: after_def)
qed

text \<open>The state map is empty when the process starts, so every state reached is well-formed.\<close>

lemma reachable_well_formed:
  "well_formed cat srv \<Longrightarrow> well_formed cat (serve cat reqs srv)"
proof (induction reqs arbitrary: srv)
  case Nil
  then show ?case by simp
next
  case (Cons req reqs)
  have "well_formed cat (after (receive_message cat req srv))"
    using receive_message_well_formed[OF Cons.prems, of req] by simp
  then show ?case using Cons.IH by simp
qed

lemma started_well_formed:
  "well_formed cat (serve cat reqs \<lparr>user_state = Map.empty, users = us, bets = bs\<rparr>)"
  by (rule reachable_well_formed) (simp add: well_formed_def)

section \<open>Kick-off times\<close>

text \<open>
  For a string the formatting step never raises: the time is rendered when it parses and
  echoed verbatim when it does not.
\<close>

lemma format_string:
  "format_commence_time (Some s) =
     (case strptime (Some s) of Inr dt \<Rightarrow> Inr (Some (strftime dt)) | Inl e \<Rightarrow> Inr (Some s))"
  by (auto simp: format_commence_time_def strptime_def
      split: list.splits prod.splits sum.splits exn.splits)

lemma format_sample:
  "format_commence_time (Some ''2024-09-14T11:30:00Z'')
     = Inr (Some ''September 14, 2024 at 11:30 UTC'')
   \<and> format_commence_time (Some ''2024-02-30T11:30:00Z'') = Inr (Some ''2024-02-30T11:30:00Z'')
   \<and> format_commence_time (Some ''tomorrow'') = Inr (Some ''tomorrow'')"
  by (simp add: format_commence_time_def strptime_def re_match_def re_Y_def re_m_def re_d_def
      re_H_def re_M_def re_S_def lit_def two_def one_def space_digit_def in_range_def
      is_decimal_def code_point_def digits_val_def digit_val_def lower_char_def
      upper_chars_def lower_chars_def days_in_month_def is_leap_def strftime_def
      month_name_def pad2_def str_nat.simps digit_char_def)

text \<open>
  Claim C7 fails on the code for a match without the key \<open>commence_time\<close>:
  \<open>match.get("commence_time")\<close> is \<open>None\<close>, \<open>strptime\<close> raises \<open>TypeError\<close>, and the handler
  catches \<open>ValueError\<close> only. In state \<open>select_tournament\<close> the request ends with that
  exception after the \<open>select_match\<close> entry was stored and before any message is sent.
\<close>

theorem missing_commence_time_raises:
  "format_commence_time (m_commence_time match_without_time) = Inl TypeError
   \<and> receive_message sample_catalog
       ((sample_request ''1'')\<lparr>fetch_matches := (\<lambda>event_key. [match_without_time])\<rparr>)
       (sample_server 500 (Some in_select_tournament)) =
     (Raise TypeError, [], sample_server 500 (Some (in_select_match [match_without_time])))
   \<and> receive_message sample_catalog (sample_request ''1'')
       (sample_server 500 (Some (in_select_match [match_without_time]))) =
     (Raise TypeError, [], sample_server 500 (Some (in_select_match [match_without_time])))"
  by (simp add: sample_defs string_defs handler_defs Let_def fun_eq_iff
      format_commence_time_def strptime_def)

end
